theory Spec2Isabelle
  imports Main "HOL-Library.Word" "HOL-Library.Sublist"
begin

section \<open>Python values handled by \<^verbatim>\<open>drive_gpt_app.py\<close>\<close>

text \<open>
  A Python \<^verbatim>\<open>str\<close> is a sequence of Unicode code points, a \<^verbatim>\<open>bytes\<close> object a
  sequence of octets. String literals of the source are written with \<open>lit\<close>, which maps
  the characters of an ASCII literal to their code points.
\<close>

type_synonym byte = "8 word"
type_synonym bytes = "byte list"
type_synonym codepoint = nat
type_synonym pystr = "codepoint list"

definition lit :: "string \<Rightarrow> pystr" where
  "lit s = map of_char s"

text \<open>
  The values that end up in \<^verbatim>\<open>prompt_parts\<close>, a dynamically typed list: strings,
  byte strings and \<^verbatim>\<open>PIL.Image\<close> objects (the type parameter).
\<close>

datatype 'img pyval = PyStr pystr | PyBytes bytes | PyImage 'img

text \<open>
  A call into a library either returns or raises an exception derived from
  \<^verbatim>\<open>Exception\<close>; \<open>Inl m\<close> is a raised exception whose \<^verbatim>\<open>str(e)\<close> is \<open>m\<close>. Both
  \<^verbatim>\<open>try\<close> blocks of the source catch \<^verbatim>\<open>Exception\<close> and only format \<^verbatim>\<open>e\<close>.
\<close>

type_synonym 'a raises = "pystr + 'a"

text \<open>Exceptions that leave a function of the source: no handler is around them.\<close>

datatype uncaught = KeyError pystr | Uncaught pystr

text \<open>\<^verbatim>\<open>str(n)\<close> for a non-negative integer, as the f-string of line 160 formats it.\<close>

fun str_nat :: "nat \<Rightarrow> pystr" where
  "str_nat n = (if n < 10 then [48 + n] else str_nat (n div 10) @ [48 + n mod 10])"

declare str_nat.simps [simp del]

text \<open>\<^verbatim>\<open>sep.join(xs)\<close>.\<close>

fun py_join :: "pystr \<Rightarrow> pystr list \<Rightarrow> pystr" where
  "py_join sep [] = []"
| "py_join sep [x] = x"
| "py_join sep (x # y # ys) = x @ sep @ py_join sep (y # ys)"

text \<open>
  A Python \<^verbatim>\<open>dict\<close> keeps its keys in the order of their first insertion; storing
  under a key that is present replaces the value where it stands.
\<close>

type_synonym ('k, 'v) pydict = "('k \<times> 'v) list"

fun dict_setitem :: "'k \<Rightarrow> 'v \<Rightarrow> ('k, 'v) pydict \<Rightarrow> ('k, 'v) pydict" where
  "dict_setitem k v [] = [(k, v)]"
| "dict_setitem k v ((k', v') # d) =
     (if k' = k then (k, v) # d else (k', v') # dict_setitem k v d)"

definition dict_get :: "('k, 'v) pydict \<Rightarrow> 'k \<Rightarrow> 'v option" where
  "dict_get d k = map_of d k"

definition dict_keys :: "('k, 'v) pydict \<Rightarrow> 'k list" where
  "dict_keys d = map fst d"


section \<open>\<^verbatim>\<open>bytes.decode("utf-8", errors=...)\<close>\<close>

text \<open>
  The decoder of CPython (\<^verbatim>\<open>utf8_decode\<close> in \<^verbatim>\<open>stringlib/codecs.h\<close> and its caller
  \<^verbatim>\<open>unicode_decode_utf8\<close>). At each position it either decodes one code point from
  1 to 4 bytes, or reports an undecodable span: one byte for an invalid start byte, the
  bytes before the offending one for an invalid continuation byte, and everything up to
  the end for a sequence cut off by the end of the data. Overlong forms, surrogates
  (\<^verbatim>\<open>ED A0..BF\<close>) and values above \<^verbatim>\<open>10FFFF\<close> are rejected at the second byte.
  The result of a step is the code point and the number of bytes it took, or the
  length of the undecodable span.
\<close>

definition IS_CONTINUATION_BYTE :: "byte \<Rightarrow> bool" where
  "IS_CONTINUATION_BYTE ch = (0x80 \<le> ch \<and> ch < 0xC0)"

datatype utf8_result = Decoded codepoint nat | Undecodable nat

definition utf8_two :: "byte \<Rightarrow> bytes \<Rightarrow> utf8_result" where
  "utf8_two ch s =
     (case s of
        [] \<Rightarrow> Undecodable 1
      | ch2 # _ \<Rightarrow>
          if \<not> IS_CONTINUATION_BYTE ch2 then Undecodable 1
          else Decoded (unat ch * 64 + unat ch2 - (0xC0 * 64 + 0x80)) 2)"

definition utf8_three :: "byte \<Rightarrow> bytes \<Rightarrow> utf8_result" where
  "utf8_three ch s =
     (case s of
        [] \<Rightarrow> Undecodable 1
      | ch2 # s2 \<Rightarrow>
          if \<not> IS_CONTINUATION_BYTE ch2 \<or> (if ch2 < 0xA0 then ch = 0xE0 else ch = 0xED)
          then Undecodable 1
          else
            (case s2 of
               [] \<Rightarrow> Undecodable 2
             | ch3 # _ \<Rightarrow>
                 if \<not> IS_CONTINUATION_BYTE ch3 then Undecodable 2
                 else Decoded (unat ch * 4096 + unat ch2 * 64 + unat ch3
                                 - (0xE0 * 4096 + 0x80 * 64 + 0x80)) 3))"

definition utf8_four :: "byte \<Rightarrow> bytes \<Rightarrow> utf8_result" where
  "utf8_four ch s =
     (case s of
        [] \<Rightarrow> Undecodable 1
      | ch2 # s2 \<Rightarrow>
          if \<not> IS_CONTINUATION_BYTE ch2 \<or> (if ch2 < 0x90 then ch = 0xF0 else ch = 0xF4)
          then Undecodable 1
          else
            (case s2 of
               [] \<Rightarrow> Undecodable 2
             | ch3 # s3 \<Rightarrow>
                 if \<not> IS_CONTINUATION_BYTE ch3 then Undecodable 2
                 else
                   (case s3 of
                      [] \<Rightarrow> Undecodable 3
                    | ch4 # _ \<Rightarrow>
                        if \<not> IS_CONTINUATION_BYTE ch4 then Undecodable 3
                        else Decoded (unat ch * 262144 + unat ch2 * 4096 + unat ch3 * 64
                                        + unat ch4
                                        - (0xF0 * 262144 + 0x80 * 4096 + 0x80 * 64 + 0x80)) 4)))"

definition utf8_first :: "byte \<Rightarrow> bytes \<Rightarrow> utf8_result" where
  "utf8_first ch s =
     (if ch < 0x80 then Decoded (unat ch) 1
      else if ch < 0xC2 then Undecodable 1
      else if ch < 0xE0 then utf8_two ch s
      else if ch < 0xF0 then utf8_three ch s
      else if ch < 0xF5 then utf8_four ch s
      else Undecodable 1)"

text \<open>
  The decoding loop. \<open>sub\<close> is what the error handler puts in place of an undecodable
  span: nothing for \<^verbatim>\<open>errors="ignore"\<close>, \<^verbatim>\<open>U+FFFD\<close> for \<^verbatim>\<open>errors="replace"\<close>.
  The counter is the number of bytes of the current step still to be passed over.
\<close>

fun utf8_decode :: "pystr \<Rightarrow> nat \<Rightarrow> bytes \<Rightarrow> pystr" where
  "utf8_decode sub skip [] = []"
| "utf8_decode sub (Suc skip) (ch # s) = utf8_decode sub skip s"
| "utf8_decode sub 0 (ch # s) =
     (case utf8_first ch s of
        Decoded c n \<Rightarrow> c # utf8_decode sub (n - 1) s
      | Undecodable n \<Rightarrow> sub @ utf8_decode sub (n - 1) s)"

definition decode_utf8_ignore :: "bytes \<Rightarrow> pystr" where
  "decode_utf8_ignore file_bytes = utf8_decode [] 0 file_bytes"

text \<open>
  The decoding the specification describes for text files, "replacing undecodable
  sequences": each undecodable span becomes the replacement character.
\<close>

definition decode_utf8_replace :: "bytes \<Rightarrow> pystr" where
  "decode_utf8_replace file_bytes = utf8_decode [0xFFFD] 0 file_bytes"


text \<open>
  For comparison, \<^verbatim>\<open>str.encode("utf-8")\<close> on a string of Unicode scalar values (code
  points up to \<^verbatim>\<open>10FFFF\<close> that are not surrogates): the well-formed byte sequences.
\<close>

definition scalar_value :: "codepoint \<Rightarrow> bool" where
  "scalar_value c = (c < 0x110000 \<and> \<not> (0xD800 \<le> c \<and> c < 0xE000))"

definition byte_of :: "nat \<Rightarrow> byte" where
  "byte_of n = of_nat n"

definition utf8_encode :: "codepoint \<Rightarrow> bytes" where
  "utf8_encode c =
     (if c < 0x80 then [byte_of c]
      else if c < 0x800 then [byte_of (0xC0 + c div 64), byte_of (0x80 + c mod 64)]
      else if c < 0x10000 then
        [byte_of (0xE0 + c div 4096), byte_of (0x80 + c div 64 mod 64), byte_of (0x80 + c mod 64)]
      else
        [byte_of (0xF0 + c div 262144), byte_of (0x80 + c div 4096 mod 64),
         byte_of (0x80 + c div 64 mod 64), byte_of (0x80 + c mod 64)])"

definition str_encode_utf8 :: "pystr \<Rightarrow> bytes" where
  "str_encode_utf8 s = concat (map utf8_encode s)"


section \<open>The environment: Drive, the document libraries, PIL, Gemini, the secrets\<close>

text \<open>
  A shape of a slide: \<^verbatim>\<open>hasattr(shape, "text")\<close> is false when reading the attribute
  raises \<^verbatim>\<open>AttributeError\<close>, and lets any other exception through.
\<close>

datatype shape = NoText | HasText pystr | TextRaises pystr

record 'img env =
  get_media :: "pystr \<Rightarrow> bytes raises"
  fitz_open :: "bytes \<Rightarrow> (pystr raises) list raises"
  docx_Document :: "bytes \<Rightarrow> (pystr raises) list raises"
  pptx_Presentation :: "bytes \<Rightarrow> shape list list raises"
  Image_open :: "bytes \<Rightarrow> 'img raises"
  genai_configure :: "pystr \<Rightarrow> unit raises"
  generate_content :: "pystr \<Rightarrow> pystr \<Rightarrow> 'img pyval list \<Rightarrow> (pystr raises) raises"
  secrets_GOOGLE_API_KEY :: "pystr option"

text \<open>
  \<^item> \<open>get_media env file_id\<close>: \<^verbatim>\<open>drive_service.files().get_media(fileId=file_id).execute()\<close>;
  \<^item> \<open>fitz_open env b\<close>: the pages of \<^verbatim>\<open>fitz.open(stream=b, filetype="pdf")\<close>, each page
    given by what its \<^verbatim>\<open>get_text()\<close> does;
  \<^item> \<open>docx_Document env b\<close>: the paragraphs of \<^verbatim>\<open>docx.Document(io.BytesIO(b))\<close>, each
    given by what reading its \<^verbatim>\<open>text\<close> does;
  \<^item> \<open>pptx_Presentation env b\<close>: the slides of \<^verbatim>\<open>pptx.Presentation(io.BytesIO(b))\<close>, each
    the list of its shapes;
  \<^item> \<open>Image_open env b\<close>: \<^verbatim>\<open>Image.open(io.BytesIO(b))\<close>;
  \<^item> \<open>genai_configure env key\<close>: \<^verbatim>\<open>genai.configure(api_key=key)\<close>;
  \<^item> \<open>generate_content env key model_name parts\<close>: building the model
    \<^verbatim>\<open>genai.GenerativeModel(model_name=...)\<close> and calling \<^verbatim>\<open>generate_content(parts)\<close> on
    it under the configured key; the response is given by what reading its \<^verbatim>\<open>text\<close>
    does;
  \<^item> \<open>secrets_GOOGLE_API_KEY env\<close>: the entry of \<^verbatim>\<open>st.secrets\<close>, if there is one.
\<close>


section \<open>\<^verbatim>\<open>get_file_content\<close>\<close>

text \<open>An entry of the Drive listing is a dictionary from field names to strings.\<close>

type_synonym file_info = "pystr \<rightharpoonup> pystr"

text \<open>The pair \<^verbatim>\<open>(content_type, content)\<close> that \<^verbatim>\<open>get_file_content\<close> returns:
  \<^verbatim>\<open>('text', str)\<close>, \<^verbatim>\<open>('image', bytes)\<close> or \<^verbatim>\<open>('unsupported', str)\<close>.\<close>

datatype extracted = Text pystr | Image bytes | Unsupported pystr

text \<open>Lines 36 to 38: \<^verbatim>\<open>for page in pdf_doc: text += page.get_text()\<close>.\<close>

fun pdf_pages :: "pystr \<Rightarrow> (pystr raises) list \<Rightarrow> pystr raises" where
  "pdf_pages text [] = Inr text"
| "pdf_pages text (page # pdf_doc) =
     (case page of Inl e \<Rightarrow> Inl e | Inr t \<Rightarrow> pdf_pages (text @ t) pdf_doc)"

text \<open>Line 46: the comprehension \<^verbatim>\<open>[p.text for p in doc.paragraphs]\<close>.\<close>

fun paragraph_texts :: "(pystr raises) list \<Rightarrow> pystr list raises" where
  "paragraph_texts [] = Inr []"
| "paragraph_texts (p # ps) =
     (case p of
        Inl e \<Rightarrow> Inl e
      | Inr t \<Rightarrow> (case paragraph_texts ps of Inl e \<Rightarrow> Inl e | Inr ts \<Rightarrow> Inr (t # ts)))"

text \<open>Lines 55 to 57, the shapes of one slide, and lines 54 to 57, the slides.\<close>

fun slide_shapes :: "pystr \<Rightarrow> shape list \<Rightarrow> pystr raises" where
  "slide_shapes text [] = Inr text"
| "slide_shapes text (sh # shapes) =
     (case sh of
        NoText \<Rightarrow> slide_shapes text shapes
      | HasText t \<Rightarrow> slide_shapes (text @ t @ [10]) shapes
      | TextRaises e \<Rightarrow> Inl e)"

fun prs_slides :: "pystr \<Rightarrow> shape list list \<Rightarrow> pystr raises" where
  "prs_slides text [] = Inr text"
| "prs_slides text (slide # slides) =
     (case slide_shapes text slide of Inl e \<Rightarrow> Inl e | Inr text' \<Rightarrow> prs_slides text' slides)"

text \<open>What one shape adds to the text of a presentation, when reading it does not raise.\<close>

fun shape_line :: "shape \<Rightarrow> pystr" where
  "shape_line (HasText t) = t @ [10]"
| "shape_line _ = []"

fun text_raises :: "shape \<Rightarrow> bool" where
  "text_raises (TextRaises _) = True"
| "text_raises _ = False"

text \<open>The body of the \<^verbatim>\<open>try\<close> block, lines 28 to 64.\<close>

definition try_extract :: "'img env \<Rightarrow> pystr \<Rightarrow> pystr \<Rightarrow> extracted raises" where
  "try_extract env file_id mime_type =
     (case get_media env file_id of
        Inl e \<Rightarrow> Inl e
      | Inr file_bytes \<Rightarrow>
          if prefix (lit ''text/'') mime_type then
            Inr (Text (decode_utf8_ignore file_bytes))
          else if mime_type = lit ''application/pdf'' then
            (case fitz_open env file_bytes of
               Inl e \<Rightarrow> Inl e
             | Inr pdf_doc \<Rightarrow>
                 (case pdf_pages [] pdf_doc of Inl e \<Rightarrow> Inl e | Inr text \<Rightarrow> Inr (Text text)))
          else if mime_type \<in> set
              [lit ''application/vnd.openxmlformats-officedocument.wordprocessingml.document'',
               lit ''application/msword''] then
            (case docx_Document env file_bytes of
               Inl e \<Rightarrow> Inl e
             | Inr paragraphs \<Rightarrow>
                 (case paragraph_texts paragraphs of
                    Inl e \<Rightarrow> Inl e
                  | Inr ts \<Rightarrow> Inr (Text (py_join [10] ts))))
          else if mime_type \<in> set
              [lit ''application/vnd.openxmlformats-officedocument.presentationml.presentation'']
          then
            (case pptx_Presentation env file_bytes of
               Inl e \<Rightarrow> Inl e
             | Inr slides \<Rightarrow>
                 (case prs_slides [] slides of Inl e \<Rightarrow> Inl e | Inr text \<Rightarrow> Inr (Text text)))
          else if prefix (lit ''image/'') mime_type then
            Inr (Image file_bytes)
          else Inr (Unsupported (lit ''Unsupported MIME type: '' @ mime_type)))"

text \<open>
  Lines 19 to 67. \<^verbatim>\<open>file_info['id']\<close> stands before the \<^verbatim>\<open>try\<close>, so a missing key
  leaves the function as a \<^verbatim>\<open>KeyError\<close>; \<^verbatim>\<open>file_info.get('mimeType', '')\<close> has a default.
\<close>

definition mime_type_of :: "file_info \<Rightarrow> pystr" where
  "mime_type_of file_info = (case file_info (lit ''mimeType'') of None \<Rightarrow> [] | Some m \<Rightarrow> m)"

definition get_file_content :: "'img env \<Rightarrow> file_info \<Rightarrow> uncaught + extracted" where
  "get_file_content env file_info =
     (case file_info (lit ''id'') of
        None \<Rightarrow> Inl (KeyError (lit ''id''))
      | Some file_id \<Rightarrow>
          (let mime_type = mime_type_of file_info in
           case try_extract env file_id mime_type of
             Inr r \<Rightarrow> Inr r
           | Inl e \<Rightarrow> Inr (Unsupported (lit ''Error reading file: '' @ e))))"

text \<open>The media types that one of the branches of lines 31 to 61 takes.\<close>

definition recognized :: "pystr \<Rightarrow> bool" where
  "recognized mime_type =
     (prefix (lit ''text/'') mime_type \<or>
      mime_type = lit ''application/pdf'' \<or>
      mime_type = lit ''application/vnd.openxmlformats-officedocument.wordprocessingml.document'' \<or>
      mime_type = lit ''application/msword'' \<or>
      mime_type = lit ''application/vnd.openxmlformats-officedocument.presentationml.presentation'' \<or>
      prefix (lit ''image/'') mime_type)"


section \<open>\<^verbatim>\<open>get_gemini_response\<close>\<close>

text \<open>The body of the \<^verbatim>\<open>try\<close> block, lines 76 to 79.\<close>

definition try_generate :: "'img env \<Rightarrow> pystr \<Rightarrow> 'img pyval list \<Rightarrow> pystr raises" where
  "try_generate env api_key prompt_parts =
     (case genai_configure env api_key of
        Inl e \<Rightarrow> Inl e
      | Inr _ \<Rightarrow>
          (case generate_content env api_key (lit ''gemini-1.5-pro-latest'') prompt_parts of
             Inl e \<Rightarrow> Inl e
           | Inr response \<Rightarrow> response))"

text \<open>Lines 70 to 81.\<close>

definition get_gemini_response :: "'img env \<Rightarrow> pystr \<Rightarrow> 'img pyval list \<Rightarrow> uncaught + pystr" where
  "get_gemini_response env api_key prompt_parts =
     (case try_generate env api_key prompt_parts of
        Inr text \<Rightarrow> Inr text
      | Inl e \<Rightarrow>
          Inr (lit ''ERROR: Could not generate response from Gemini. Details: '' @ e))"


section \<open>The page: listing, selection and the button handler\<close>

text \<open>
  What a run puts on the page, in order, and the call of the model client with its
  arguments. The input widgets (the multiselect, the text area, the button) are inputs
  of the run and leave no event.
\<close>

datatype 'img ui_event =
    Status pystr
  | StatusUpdate pystr
  | StatusComplete pystr
  | Warning pystr
  | Info pystr
  | Spinner pystr
  | GeminiCall pystr "'img pyval list"
  | Subheader pystr
  | Write pystr

record 'img run =
  prompt_parts :: "'img pyval list"
  ui :: "'img ui_event list"

text \<open>Line 129: \<^verbatim>\<open>file_options = {item["name"]: item for item in items}\<close>.\<close>

fun file_options_from :: "(pystr, file_info) pydict \<Rightarrow> file_info list \<Rightarrow>
    uncaught + (pystr, file_info) pydict" where
  "file_options_from d [] = Inr d"
| "file_options_from d (item # items) =
     (case item (lit ''name'') of
        None \<Rightarrow> Inl (KeyError (lit ''name''))
      | Some name \<Rightarrow> file_options_from (dict_setitem name item d) items)"

definition file_options :: "file_info list \<Rightarrow> uncaught + (pystr, file_info) pydict" where
  "file_options items = file_options_from [] items"

definition document_part :: "pystr \<Rightarrow> pystr \<Rightarrow> pystr" where
  "document_part name content =
     [10] @ lit ''--- DOCUMENT: '' @ name @ lit '' ---'' @ [10] @ content"

definition skip_warning :: "pystr \<Rightarrow> pystr \<Rightarrow> pystr" where
  "skip_warning name content =
     lit ''Skipping unsupported file: '' @ name @ lit '' ('' @ content @ lit '')''"

text \<open>The body of the loop, lines 142 to 153, for one entry of the selection.\<close>

definition process_file :: "'img env \<Rightarrow> (pystr, file_info) pydict \<Rightarrow> pystr \<Rightarrow> 'img run \<Rightarrow>
    uncaught + 'img run" where
  "process_file env opts file_display st =
     (case dict_get opts file_display of
        None \<Rightarrow> Inl (KeyError file_display)
      | Some file_info \<Rightarrow>
          (let st1 = st\<lparr>ui := ui st @
                 [StatusUpdate (lit ''Processing: '' @ file_display @ lit ''...'')]\<rparr> in
           case get_file_content env file_info of
             Inl x \<Rightarrow> Inl x
           | Inr (Text content) \<Rightarrow>
               (case file_info (lit ''name'') of
                  None \<Rightarrow> Inl (KeyError (lit ''name''))
                | Some name \<Rightarrow>
                    Inr (st1\<lparr>prompt_parts := prompt_parts st1 @
                           [PyStr (document_part name content)]\<rparr>))
           | Inr (Image content) \<Rightarrow>
               (case Image_open env content of
                  Inl e \<Rightarrow> Inl (Uncaught e)
                | Inr img \<Rightarrow> Inr (st1\<lparr>prompt_parts := prompt_parts st1 @ [PyImage img]\<rparr>))
           | Inr (Unsupported content) \<Rightarrow>
               (case file_info (lit ''name'') of
                  None \<Rightarrow> Inl (KeyError (lit ''name''))
                | Some name \<Rightarrow>
                    Inr (st1\<lparr>ui := ui st1 @ [Warning (skip_warning name content)]\<rparr>))))"

text \<open>The loop of line 141 over \<^verbatim>\<open>selected_files_display\<close>.\<close>

fun process_files :: "'img env \<Rightarrow> (pystr, file_info) pydict \<Rightarrow> pystr list \<Rightarrow> 'img run \<Rightarrow>
    uncaught + 'img run" where
  "process_files env opts [] st = Inr st"
| "process_files env opts (file_display # rest) st =
     (case process_file env opts file_display st of
        Inl x \<Rightarrow> Inl x
      | Inr st' \<Rightarrow> process_files env opts rest st')"

text \<open>The body of the button's \<^verbatim>\<open>if\<close>, lines 139 to 165.\<close>

definition analyze_files :: "'img env \<Rightarrow> (pystr, file_info) pydict \<Rightarrow> pystr list \<Rightarrow> pystr \<Rightarrow>
    uncaught + 'img run" where
  "analyze_files env opts selected_files_display user_prompt =
     (case process_files env opts selected_files_display
             \<lparr>prompt_parts = [], ui = [Status (lit ''Processing files...'')]\<rparr> of
        Inl x \<Rightarrow> Inl x
      | Inr st \<Rightarrow>
          (let st1 = st\<lparr>ui := ui st @ [StatusComplete (lit ''All files processed!'')]\<rparr> in
           if prompt_parts st1 \<noteq> [] then
             (let parts = PyStr user_prompt # prompt_parts st1;
                  st2 = st1\<lparr>prompt_parts := parts,
                          ui := ui st1 @
                            [Info (lit ''Sending '' @ str_nat (length selected_files_display) @
                                   lit '' file(s) to Gemini for analysis...''),
                             Spinner ([0xF0, 0x178, 0xA4, 0x2013] @
                                      lit '' Gemini is thinking...'')]\<rparr> in
              case secrets_GOOGLE_API_KEY env of
                None \<Rightarrow> Inl (KeyError (lit ''GOOGLE_API_KEY''))
              | Some api_key \<Rightarrow>
                  (case get_gemini_response env api_key parts of
                     Inl x \<Rightarrow> Inl x
                   | Inr gemini_response \<Rightarrow>
                       Inr (st2\<lparr>ui := ui st2 @
                              [GeminiCall api_key parts,
                               Subheader (lit ''Gemini'' @ [39] @ lit ''s Response:''),
                               Write gemini_response]\<rparr>)))
           else Inr st1))"

text \<open>
  Lines 126 to 165: the listing \<open>items\<close>, the names the user picked in the multiselect,
  the text of the prompt box, and whether the button was pressed. The button is
  disabled, and so never reports a press, while the selection or the prompt is empty.
\<close>

definition page :: "'img env \<Rightarrow> file_info list \<Rightarrow> pystr list \<Rightarrow> pystr \<Rightarrow> bool \<Rightarrow>
    uncaught + 'img run" where
  "page env items selected_files_display user_prompt pressed =
     (if items = [] then
        Inr \<lparr>prompt_parts = [], ui = [Info (lit ''No files found in your Google Drive.'')]\<rparr>
      else
        (case file_options items of
           Inl x \<Rightarrow> Inl x
         | Inr opts \<Rightarrow>
             if pressed \<and> \<not> (selected_files_display = [] \<or> user_prompt = []) then
               analyze_files env opts selected_files_display user_prompt
             else Inr \<lparr>prompt_parts = [], ui = []\<rparr>))"

text \<open>The events that send something to the model or show its answer.\<close>

fun is_model_call :: "'img ui_event \<Rightarrow> bool" where
  "is_model_call (GeminiCall _ _) = True"
| "is_model_call _ = False"

fun is_response_display :: "'img ui_event \<Rightarrow> bool" where
  "is_response_display (Subheader _) = True"
| "is_response_display (Write _) = True"
| "is_response_display _ = False"


text \<open>
  The \<^verbatim>\<open>prompt_parts\<close> arguments of the calls of \<^verbatim>\<open>get_gemini_response\<close> in a run, in
  order. A run that ends in an uncaught exception has made none: line 162 is the last
  place that can raise, and it stands before the call.
\<close>

fun call_parts :: "'img ui_event list \<Rightarrow> 'img pyval list list" where
  "call_parts [] = []"
| "call_parts (GeminiCall _ parts # evs) = parts # call_parts evs"
| "call_parts (_ # evs) = call_parts evs"

definition parts_sent :: "uncaught + 'img run \<Rightarrow> 'img pyval list list" where
  "parts_sent r = (case r of Inl _ \<Rightarrow> [] | Inr st \<Rightarrow> call_parts (ui st))"


definition empty_run :: "'img run" where
  "empty_run = \<lparr>prompt_parts = [], ui = []\<rparr>"


section \<open>A small Drive for the examples\<close>

definition mk_file :: "string \<Rightarrow> string \<Rightarrow> string \<Rightarrow> file_info" where
  "mk_file i n m = [lit ''id'' \<mapsto> lit i, lit ''name'' \<mapsto> lit n, lit ''mimeType'' \<mapsto> lit m]"

definition file_a :: file_info where "file_a = mk_file ''1'' ''a.txt'' ''text/plain''"
definition file_b :: file_info where "file_b = mk_file ''2'' ''b.txt'' ''text/plain''"
definition file_c :: file_info where "file_c = mk_file ''3'' ''c.txt'' ''text/plain''"
definition file_d :: file_info where "file_d = mk_file ''4'' ''d.pdf'' ''application/pdf''"
definition file_e :: file_info where
  "file_e = mk_file ''5'' ''e.pptx''
     ''application/vnd.openxmlformats-officedocument.presentationml.presentation''"
definition file_f :: file_info where "file_f = mk_file ''6'' ''f.png'' ''image/png''"
definition file_g :: file_info where "file_g = mk_file ''7'' ''g.bin'' ''application/zip''"
definition file_h :: file_info where "file_h = mk_file ''8'' ''h.txt'' ''text/plain''"
definition file_a2 :: file_info where "file_a2 = mk_file ''9'' ''a.txt'' ''image/png''"

definition file_w :: file_info where "file_w = mk_file ''10'' ''w.doc'' ''application/msword''"

definition drive_media :: "pystr \<Rightarrow> bytes raises" where
  "drive_media file_id =
     (if file_id = lit ''1'' then Inr [0x41]
      else if file_id = lit ''2'' then Inr [0x42]
      else if file_id = lit ''3'' then Inr [0x41, 0xFF, 0x42]
      else if file_id = lit ''4'' then Inr [0x25, 0x50, 0x44, 0x46]
      else if file_id = lit ''5'' then Inr [0x50, 0x4B]
      else if file_id = lit ''6'' then Inr [0x89, 0x50]
      else if file_id = lit ''7'' then Inr [0x50, 0x4B]
      else if file_id = lit ''9'' then Inr [0x00]
      else if file_id = lit ''10'' then Inr [0xD0, 0xCF]
      else Inl (lit ''HttpError 404''))"

definition drive_env :: "(nat \<times> nat) env" where
  "drive_env =
     \<lparr>get_media = drive_media,
      fitz_open = (\<lambda>b. Inr [Inr (lit ''P1''), Inr (lit ''P2'')]),
      docx_Document = (\<lambda>b. Inr [Inr (lit ''L1''), Inr (lit ''L2'')]),
      pptx_Presentation = (\<lambda>b. Inr [[HasText (lit ''T''), NoText], [HasText (lit ''U'')]]),
      Image_open = (\<lambda>b. if b = [0x89, 0x50] then Inr (1, 1) else Inl (lit ''cannot identify image file'')),
      genai_configure = (\<lambda>k. Inr ()),
      generate_content = (\<lambda>k m parts. Inr (Inr (lit ''ok''))),
      secrets_GOOGLE_API_KEY = Some (lit ''key'')\<rparr>"

definition quota_env :: "(nat \<times> nat) env" where
  "quota_env = drive_env\<lparr>generate_content := (\<lambda>k m parts. Inl (lit ''429 quota''))\<rparr>"

text \<open>
  The same Drive with damaged documents: the PDF does not open, the second paragraph of
  the Word document and the second shape of the second slide cannot be read.
\<close>

definition broken_env :: "(nat \<times> nat) env" where
  "broken_env =
     drive_env\<lparr>fitz_open := (\<lambda>b. Inl (lit ''cannot open broken document'')),
       docx_Document := (\<lambda>b. Inr [Inr (lit ''L1''), Inl (lit ''bad paragraph'')]),
       pptx_Presentation :=
         (\<lambda>b. Inr [[HasText (lit ''T'')],
                   [NoText, TextRaises (lit ''bad shape''), HasText (lit ''U'')]])\<rparr>"

text \<open>A model whose reply happens to begin with the text of the error message.\<close>

definition echo_env :: "(nat \<times> nat) env" where
  "echo_env =
     drive_env\<lparr>generate_content := (\<lambda>k m parts.
       Inr (Inr (lit ''ERROR: Could not generate response from Gemini. Details: 429 quota'')))\<rparr>"

definition drive_options :: "(pystr, file_info) pydict" where
  "drive_options =
     [(lit ''a.txt'', file_a), (lit ''b.txt'', file_b), (lit ''c.txt'', file_c),
      (lit ''d.pdf'', file_d), (lit ''e.pptx'', file_e), (lit ''f.png'', file_f),
      (lit ''g.bin'', file_g), (lit ''h.txt'', file_h)]"


section \<open>Facts about the helper functions\<close>

lemmas utf8_defs = utf8_first_def utf8_two_def utf8_three_def utf8_four_def IS_CONTINUATION_BYTE_def

lemma utf8_decode_numeral [simp]:
  "utf8_decode sub (numeral k) (ch # s) = utf8_decode sub (pred_numeral k) s"
  by (simp add: numeral_eq_Suc)

lemmas drive_defs = mk_file_def drive_env_def drive_media_def lit_def mime_type_of_def

text \<open>The decoder inverts the encoder, whatever the error handler.\<close>

lemma unat_byte: "n < 256 \<Longrightarrow> unat (byte_of n) = n"
  by (simp add: byte_of_def unat_of_nat)

lemma byte_less: "(a :: byte) < b \<longleftrightarrow> unat a < unat b"
  by (simp add: word_less_nat_alt)

lemma byte_le: "(a :: byte) \<le> b \<longleftrightarrow> unat a \<le> unat b"
  by (simp add: word_le_nat_alt)

lemma byte_eq: "(a :: byte) = b \<longleftrightarrow> unat a = unat b"
  by (simp add: word_unat_eq_iff)

lemma cont_byte: "n < 64 \<Longrightarrow> IS_CONTINUATION_BYTE (byte_of (0x80 + n))"
  by (simp add: IS_CONTINUATION_BYTE_def byte_less byte_le unat_byte)

lemma first_one: "c < 0x80 \<Longrightarrow> utf8_first (byte_of c) s = Decoded c 1"
  by (simp add: utf8_first_def byte_less unat_byte)

lemma first_two_gen:
  assumes "2 \<le> q" "q < 32" "r < 64"
  shows "utf8_first (byte_of (0xC0 + q)) (byte_of (0x80 + r) # s) = Decoded (q * 64 + r) 2"
proof -
  have u1: "unat (byte_of (0xC0 + q)) = 0xC0 + q" using assms by (simp add: unat_byte)
  have u2: "unat (byte_of (0x80 + r)) = 0x80 + r" using assms by (simp add: unat_byte)
  have c2: "IS_CONTINUATION_BYTE (byte_of (0x80 + r))" using assms by (simp add: cont_byte)
  have f: "\<not> byte_of (0xC0 + q) < 0x80" "\<not> byte_of (0xC0 + q) < 0xC2"
    "byte_of (0xC0 + q) < 0xE0"
    using assms by (simp_all add: byte_less u1)
  show ?thesis
    by (simp add: utf8_first_def utf8_two_def f c2 u1 u2)
qed

lemma first_three_gen:
  assumes "q < 16" "m < 64" "r < 64" "q = 0 \<longrightarrow> 32 \<le> m" "q = 13 \<longrightarrow> m < 32"
  shows "utf8_first (byte_of (0xE0 + q)) (byte_of (0x80 + m) # byte_of (0x80 + r) # s) =
     Decoded (q * 4096 + m * 64 + r) 3"
proof -
  have u1: "unat (byte_of (0xE0 + q)) = 0xE0 + q" using assms by (simp add: unat_byte)
  have u2: "unat (byte_of (0x80 + m)) = 0x80 + m" using assms by (simp add: unat_byte)
  have u3: "unat (byte_of (0x80 + r)) = 0x80 + r" using assms by (simp add: unat_byte)
  have c2: "IS_CONTINUATION_BYTE (byte_of (0x80 + m))" using assms by (simp add: cont_byte)
  have c3: "IS_CONTINUATION_BYTE (byte_of (0x80 + r))" using assms by (simp add: cont_byte)
  have e0: "byte_of (0xE0 + q) = 0xE0 \<longleftrightarrow> q = 0" by (simp add: byte_eq u1)
  have ed: "byte_of (0xE0 + q) = 0xED \<longleftrightarrow> q = 13" by (simp add: byte_eq u1)
  have lt: "byte_of (0x80 + m) < 0xA0 \<longleftrightarrow> m < 32" by (simp add: byte_less u2)
  have f: "\<not> byte_of (0xE0 + q) < 0x80" "\<not> byte_of (0xE0 + q) < 0xC2"
    "\<not> byte_of (0xE0 + q) < 0xE0" "byte_of (0xE0 + q) < 0xF0"
    using assms(1) by (simp_all add: byte_less u1)
  show ?thesis
    using assms(4,5)
    by (auto simp add: utf8_first_def utf8_three_def f c2 c3 e0 ed lt u1 u2 u3)
qed

lemma first_four_gen:
  assumes "q < 5" "m < 64" "n < 64" "r < 64" "q = 0 \<longrightarrow> 16 \<le> m" "q = 4 \<longrightarrow> m < 16"
  shows "utf8_first (byte_of (0xF0 + q))
           (byte_of (0x80 + m) # byte_of (0x80 + n) # byte_of (0x80 + r) # s) =
     Decoded (q * 262144 + m * 4096 + n * 64 + r) 4"
proof -
  have u1: "unat (byte_of (0xF0 + q)) = 0xF0 + q" using assms by (simp add: unat_byte)
  have u2: "unat (byte_of (0x80 + m)) = 0x80 + m" using assms by (simp add: unat_byte)
  have u3: "unat (byte_of (0x80 + n)) = 0x80 + n" using assms by (simp add: unat_byte)
  have u4: "unat (byte_of (0x80 + r)) = 0x80 + r" using assms by (simp add: unat_byte)
  have c2: "IS_CONTINUATION_BYTE (byte_of (0x80 + m))" using assms by (simp add: cont_byte)
  have c3: "IS_CONTINUATION_BYTE (byte_of (0x80 + n))" using assms by (simp add: cont_byte)
  have c4: "IS_CONTINUATION_BYTE (byte_of (0x80 + r))" using assms by (simp add: cont_byte)
  have e0: "byte_of (0xF0 + q) = 0xF0 \<longleftrightarrow> q = 0" by (simp add: byte_eq u1)
  have e4: "byte_of (0xF0 + q) = 0xF4 \<longleftrightarrow> q = 4" by (simp add: byte_eq u1)
  have lt: "byte_of (0x80 + m) < 0x90 \<longleftrightarrow> m < 16" by (simp add: byte_less u2)
  have f: "\<not> byte_of (0xF0 + q) < 0x80" "\<not> byte_of (0xF0 + q) < 0xC2"
    "\<not> byte_of (0xF0 + q) < 0xE0" "\<not> byte_of (0xF0 + q) < 0xF0" "byte_of (0xF0 + q) < 0xF5"
    using assms(1) by (simp_all add: byte_less u1)
  show ?thesis
    using assms(5,6)
    by (auto simp add: utf8_first_def utf8_four_def f c2 c3 c4 e0 e4 lt u1 u2 u3 u4)
qed

lemma digits64:
  fixes c :: nat
  shows "c = c div 64 * 64 + c mod 64"
    and "c = c div 4096 * 4096 + c div 64 mod 64 * 64 + c mod 64"
    and "c = c div 262144 * 262144 + c div 4096 mod 64 * 4096 + c div 64 mod 64 * 64 + c mod 64"
proof -
  show a: "c = c div 64 * 64 + c mod 64" by simp
  have d2: "c div 4096 = c div 64 div 64" using div_mult2_eq [of c 64 64] by simp
  have d3: "c div 262144 = c div 4096 div 64" using div_mult2_eq [of c 4096 64] by simp
  have b: "c div 64 = c div 4096 * 64 + c div 64 mod 64" unfolding d2 by simp
  show e: "c = c div 4096 * 4096 + c div 64 mod 64 * 64 + c mod 64"
    using a b by linarith
  have "c div 4096 = c div 262144 * 64 + c div 4096 mod 64" unfolding d3 by simp
  then show "c = c div 262144 * 262144 + c div 4096 mod 64 * 4096 + c div 64 mod 64 * 64 + c mod 64"
    using e by linarith
qed

lemma decode_encoded:
  assumes "scalar_value c"
  shows "utf8_decode sub 0 (utf8_encode c @ s) = c # utf8_decode sub 0 s"
proof -
  consider "c < 0x80" | "0x80 \<le> c" "c < 0x800" | "0x800 \<le> c" "c < 0x10000"
    | "0x10000 \<le> c" by linarith
  then show ?thesis
  proof cases
    case 1
    then show ?thesis by (simp add: utf8_encode_def first_one)
  next
    case 2
    define q r where "q = c div 64" and "r = c mod 64"
    have c: "q * 64 + r = c" unfolding q_def r_def by (rule digits64(1) [symmetric])
    have b: "r < 64" unfolding r_def by simp
    have "2 \<le> q" "q < 32" using 2 c b by linarith+
    from first_two_gen [OF this b, of "s"]
    have f: "utf8_first (byte_of (0xC0 + q)) (byte_of (0x80 + r) # s) = Decoded c 2"
      by (simp only: c)
    have enc: "utf8_encode c = [byte_of (0xC0 + q), byte_of (0x80 + r)]"
      using 2 by (simp add: utf8_encode_def q_def r_def)
    show ?thesis unfolding enc by (simp add: f)
  next
    case 3
    define q m r where "q = c div 4096" and "m = c div 64 mod 64" and "r = c mod 64"
    have c: "q * 4096 + m * 64 + r = c"
      unfolding q_def m_def r_def by (rule digits64(2) [symmetric])
    have b: "m < 64" "r < 64" unfolding m_def r_def by simp_all
    have q: "q < 16" using 3 c b by linarith
    have lo: "q = 0 \<longrightarrow> 32 \<le> m" using 3 c b by auto
    have hi: "q = 13 \<longrightarrow> m < 32" using assms c b unfolding scalar_value_def by auto
    from first_three_gen [OF q b lo hi, of "s"]
    have f: "utf8_first (byte_of (0xE0 + q)) (byte_of (0x80 + m) # byte_of (0x80 + r) # s) =
        Decoded c 3"
      by (simp only: c)
    have enc: "utf8_encode c = [byte_of (0xE0 + q), byte_of (0x80 + m), byte_of (0x80 + r)]"
      using 3 by (simp add: utf8_encode_def q_def m_def r_def)
    show ?thesis unfolding enc by (simp add: f)
  next
    case 4
    define q m n r where "q = c div 262144" and "m = c div 4096 mod 64"
      and "n = c div 64 mod 64" and "r = c mod 64"
    have c: "q * 262144 + m * 4096 + n * 64 + r = c"
      unfolding q_def m_def n_def r_def by (rule digits64(3) [symmetric])
    have b: "m < 64" "n < 64" "r < 64" unfolding m_def n_def r_def by simp_all
    have q: "q < 5" using assms c b unfolding scalar_value_def by linarith
    have lo: "q = 0 \<longrightarrow> 16 \<le> m" using 4 c b by auto
    have hi: "q = 4 \<longrightarrow> m < 16" using assms c b unfolding scalar_value_def by auto
    from first_four_gen [OF q b lo hi, of "s"]
    have f: "utf8_first (byte_of (0xF0 + q))
        (byte_of (0x80 + m) # byte_of (0x80 + n) # byte_of (0x80 + r) # s) = Decoded c 4"
      by (simp only: c)
    have enc: "utf8_encode c =
        [byte_of (0xF0 + q), byte_of (0x80 + m), byte_of (0x80 + n), byte_of (0x80 + r)]"
      using 4 by (simp add: utf8_encode_def q_def m_def n_def r_def)
    show ?thesis unfolding enc by (simp add: f)
  qed
qed

lemma decode_encode_roundtrip:
  "\<forall>c \<in> set cs. scalar_value c \<Longrightarrow> utf8_decode sub 0 (str_encode_utf8 cs) = cs"
  unfolding str_encode_utf8_def by (induction cs) (simp_all add: decode_encoded)

text \<open>On well-formed input both error handlers are idle: the text comes back as it was.\<close>

lemma decode_well_formed:
  assumes "\<forall>c \<in> set s. scalar_value c"
  shows "decode_utf8_ignore (str_encode_utf8 s) = s"
    and "decode_utf8_replace (str_encode_utf8 s) = s"
  using assms by (simp_all add: decode_utf8_ignore_def decode_utf8_replace_def
      decode_encode_roundtrip)

lemma pdf_pages_all: "pdf_pages acc (map Inr ts) = Inr (acc @ concat ts)"
  by (induction ts arbitrary: acc) simp_all

lemma slide_shapes_all:
  "\<forall>sh \<in> set shapes. \<not> text_raises sh \<Longrightarrow>
   slide_shapes acc shapes = Inr (acc @ concat (map shape_line shapes))"
proof (induction shapes arbitrary: acc)
  case Nil
  show ?case by simp
next
  case (Cons sh shapes)
  then show ?case by (cases sh) simp_all
qed

lemma prs_slides_all:
  "\<forall>sh \<in> set (concat slides). \<not> text_raises sh \<Longrightarrow>
   prs_slides acc slides = Inr (acc @ concat (map shape_line (concat slides)))"
proof (induction slides arbitrary: acc)
  case Nil
  show ?case by simp
next
  case (Cons slide slides)
  then show ?case by (simp add: slide_shapes_all)
qed

lemma pdf_pages_raises: "pdf_pages acc (map Inr ts @ Inl e # rest) = Inl e"
  by (induction ts arbitrary: acc) simp_all

lemma paragraph_texts_raises: "paragraph_texts (map Inr ts @ Inl e # rest) = Inl e"
  by (induction ts) simp_all

lemma slide_shapes_append:
  "slide_shapes acc (xs @ ys) =
     (case slide_shapes acc xs of Inl e \<Rightarrow> Inl e | Inr acc' \<Rightarrow> slide_shapes acc' ys)"
  by (induction xs arbitrary: acc) (simp_all split: shape.splits)

lemma prs_slides_concat: "prs_slides acc slides = slide_shapes acc (concat slides)"
  by (induction slides arbitrary: acc) (simp_all add: slide_shapes_append split: sum.splits)

lemma slide_shapes_raises:
  "\<forall>sh \<in> set pre. \<not> text_raises sh \<Longrightarrow>
   slide_shapes acc (pre @ TextRaises e # rest) = Inl e"
  by (simp add: slide_shapes_append slide_shapes_all)

lemma word_branch:
  "\<not> prefix (lit ''text/'')
      (lit ''application/vnd.openxmlformats-officedocument.wordprocessingml.document'')"
  "lit ''application/vnd.openxmlformats-officedocument.wordprocessingml.document'' \<noteq>
     lit ''application/pdf''"
  "\<not> prefix (lit ''text/'') (lit ''application/msword'')"
  "lit ''application/msword'' \<noteq> lit ''application/pdf''"
  by (simp_all add: lit_def)

lemma not_text_pdf: "\<not> prefix (lit ''text/'') (lit ''application/pdf'')"
  by (simp add: lit_def)

lemma pptx_branch:
  "\<not> prefix (lit ''text/'') (lit ''application/vnd.openxmlformats-officedocument.presentationml.presentation'')"
  "lit ''application/vnd.openxmlformats-officedocument.presentationml.presentation'' \<noteq> lit ''application/pdf''"
  "lit ''application/vnd.openxmlformats-officedocument.presentationml.presentation'' \<noteq>
     lit ''application/vnd.openxmlformats-officedocument.wordprocessingml.document''"
  "lit ''application/vnd.openxmlformats-officedocument.presentationml.presentation'' \<noteq> lit ''application/msword''"
  by (simp_all add: lit_def)

lemma try_extract_unrecognized:
  "\<not> recognized m \<Longrightarrow>
   try_extract env file_id m =
     (case get_media env file_id of Inl e \<Rightarrow> Inl e
      | Inr b \<Rightarrow> Inr (Unsupported (lit ''Unsupported MIME type: '' @ m)))"
  by (simp add: try_extract_def recognized_def split: sum.splits)

lemma map_of_dict_setitem: "map_of (dict_setitem k v d) = (map_of d)(k \<mapsto> v)"
  by (induction d) (auto simp: fun_eq_iff)

lemma keys_dict_setitem: "fst ` set (dict_setitem k v d) = insert k (fst ` set d)"
proof -
  have "fst ` set (dict_setitem k v d) = dom (map_of (dict_setitem k v d))"
    by (simp add: dom_map_of_conv_image_fst)
  also have "\<dots> = insert k (dom (map_of d))"
    by (simp add: map_of_dict_setitem)
  also have "\<dots> = insert k (fst ` set d)"
    by (simp add: dom_map_of_conv_image_fst)
  finally show ?thesis .
qed

lemma distinct_dict_setitem:
  "distinct (map fst d) \<Longrightarrow> distinct (map fst (dict_setitem k v d))"
proof (induction d)
  case Nil
  show ?case by simp
next
  case (Cons p d)
  obtain k' v' where p: "p = (k', v')" by (cases p)
  show ?case
  proof (cases "k' = k")
    case True
    then show ?thesis using Cons.prems p by simp
  next
    case False
    have "k' \<notin> fst ` set (dict_setitem k v d)"
      using Cons.prems p False by (simp add: keys_dict_setitem)
    then show ?thesis using Cons p False by simp
  qed
qed

lemma file_options_from_named:
  "\<forall>item \<in> set items. item (lit ''name'') \<noteq> None \<Longrightarrow> distinct (map fst d) \<Longrightarrow>
   \<exists>opts. file_options_from d items = Inr opts \<and>
     distinct (map fst opts) \<and>
     set (map fst opts) = set (map fst d) \<union> {n. \<exists>item \<in> set items. item (lit ''name'') = Some n} \<and>
     (\<forall>n. map_of opts n =
        (if filter (\<lambda>i. i (lit ''name'') = Some n) items = [] then map_of d n
         else Some (last (filter (\<lambda>i. i (lit ''name'') = Some n) items))))"
proof (induction items arbitrary: d)
  case Nil
  then show ?case by simp
next
  case (Cons item items)
  from Cons.prems(1) obtain name where name: "item (lit ''name'') = Some name" by auto
  let ?d = "dict_setitem name item d"
  have "\<forall>item \<in> set items. item (lit ''name'') \<noteq> None" using Cons.prems(1) by simp
  moreover have "distinct (map fst ?d)" using Cons.prems(2) by (rule distinct_dict_setitem)
  ultimately obtain opts where opts: "file_options_from ?d items = Inr opts"
    "distinct (map fst opts)"
    "set (map fst opts) = set (map fst ?d) \<union> {n. \<exists>item \<in> set items. item (lit ''name'') = Some n}"
    "\<forall>n. map_of opts n =
        (if filter (\<lambda>i. i (lit ''name'') = Some n) items = [] then map_of ?d n
         else Some (last (filter (\<lambda>i. i (lit ''name'') = Some n) items)))"
    using Cons.IH [of ?d] by blast
  have "file_options_from d (item # items) = Inr opts" using name opts(1) by simp
  moreover have "set (map fst opts) =
      set (map fst d) \<union> {n. \<exists>i \<in> set (item # items). i (lit ''name'') = Some n}"
    using opts(3) name by (auto simp: keys_dict_setitem)
  moreover have "\<forall>n. map_of opts n =
        (if filter (\<lambda>i. i (lit ''name'') = Some n) (item # items) = [] then map_of d n
         else Some (last (filter (\<lambda>i. i (lit ''name'') = Some n) (item # items))))"
    using opts(4) name by (auto simp: map_of_dict_setitem)
  ultimately show ?case using opts(2) by blast
qed

lemma process_files_append:
  "process_files env opts (xs @ ys) st =
     (case process_files env opts xs st of
        Inl x \<Rightarrow> Inl x
      | Inr st' \<Rightarrow> process_files env opts ys st')"
  by (induction xs arbitrary: st) (simp_all split: sum.splits)

lemma process_file_unsupported:
  assumes "dict_get opts name = Some file_info"
    and "get_file_content env file_info = Inr (Unsupported reason)"
    and "file_info (lit ''name'') = Some fname"
  shows "process_file env opts name st =
     Inr (st\<lparr>ui := ui st @ [StatusUpdate (lit ''Processing: '' @ name @ lit ''...''),
                            Warning (skip_warning fname reason)]\<rparr>)"
  using assms by (simp add: process_file_def)

lemma call_parts_append: "call_parts (xs @ ys) = call_parts xs @ call_parts ys"
  by (induction xs rule: call_parts.induct) simp_all

lemma process_files_all_unsupported:
  assumes "\<forall>name \<in> set selected. \<exists>file_info reason fname.
      dict_get opts name = Some file_info \<and>
      get_file_content env file_info = Inr (Unsupported reason) \<and>
      file_info (lit ''name'') = Some fname"
  shows "\<exists>st'. process_files env opts selected st = Inr st' \<and>
      prompt_parts st' = prompt_parts st \<and>
      (\<forall>ev \<in> set (ui st'). ev \<in> set (ui st) \<or> (\<not> is_model_call ev \<and> \<not> is_response_display ev))"
  using assms
proof (induction selected arbitrary: st)
  case Nil
  show ?case by simp
next
  case (Cons name selected)
  from Cons.prems obtain file_info reason fname where f:
    "dict_get opts name = Some file_info"
    "get_file_content env file_info = Inr (Unsupported reason)"
    "file_info (lit ''name'') = Some fname" by auto
  let ?st = "st\<lparr>ui := ui st @ [StatusUpdate (lit ''Processing: '' @ name @ lit ''...''),
                            Warning (skip_warning fname reason)]\<rparr>"
  have step: "process_file env opts name st = Inr ?st" by (rule process_file_unsupported [OF f])
  from Cons.prems have "\<forall>name \<in> set selected. \<exists>file_info reason fname.
      dict_get opts name = Some file_info \<and>
      get_file_content env file_info = Inr (Unsupported reason) \<and>
      file_info (lit ''name'') = Some fname" by simp
  from Cons.IH [OF this, of ?st] obtain st' where st':
    "process_files env opts selected ?st = Inr st'" "prompt_parts st' = prompt_parts ?st"
    "\<forall>ev \<in> set (ui st'). ev \<in> set (ui ?st) \<or> (\<not> is_model_call ev \<and> \<not> is_response_display ev)"
    by blast
  have "process_files env opts (name # selected) st = Inr st'" using step st'(1) by simp
  moreover have "prompt_parts st' = prompt_parts st" using st'(2) by simp
  moreover have "\<forall>ev \<in> set (ui st'). ev \<in> set (ui st) \<or> (\<not> is_model_call ev \<and> \<not> is_response_display ev)"
    using st'(3) by auto
  ultimately show ?case by blast
qed


lemma drive_ids:
  "file_a (lit ''id'') = Some (lit ''1'')" "file_b (lit ''id'') = Some (lit ''2'')"
  "file_c (lit ''id'') = Some (lit ''3'')" "file_d (lit ''id'') = Some (lit ''4'')"
  "file_e (lit ''id'') = Some (lit ''5'')" "file_f (lit ''id'') = Some (lit ''6'')"
  "file_g (lit ''id'') = Some (lit ''7'')" "file_h (lit ''id'') = Some (lit ''8'')"
  by (simp_all add: file_a_def file_b_def file_c_def file_d_def file_e_def file_f_def
        file_g_def file_h_def mk_file_def lit_def)

lemma drive_names:
  "file_a (lit ''name'') = Some (lit ''a.txt'')" "file_b (lit ''name'') = Some (lit ''b.txt'')"
  "file_f (lit ''name'') = Some (lit ''f.png'')" "file_g (lit ''name'') = Some (lit ''g.bin'')"
  "file_h (lit ''name'') = Some (lit ''h.txt'')" "file_a2 (lit ''name'') = Some (lit ''a.txt'')"
  by (simp_all add: file_a_def file_b_def file_f_def file_g_def file_h_def file_a2_def
        mk_file_def lit_def)

lemma drive_mimes:
  "mime_type_of file_a = lit ''text/plain''" "mime_type_of file_b = lit ''text/plain''"
  "mime_type_of file_c = lit ''text/plain''" "mime_type_of file_d = lit ''application/pdf''"
  "mime_type_of file_e =
     lit ''application/vnd.openxmlformats-officedocument.presentationml.presentation''"
  "mime_type_of file_f = lit ''image/png''" "mime_type_of file_g = lit ''application/zip''"
  "mime_type_of file_h = lit ''text/plain''"
  by (simp_all add: file_a_def file_b_def file_c_def file_d_def file_e_def file_f_def
        file_g_def file_h_def mk_file_def lit_def mime_type_of_def)

lemma drive_fetch:
  "get_media drive_env (lit ''1'') = Inr [0x41]" "get_media drive_env (lit ''2'') = Inr [0x42]"
  "get_media drive_env (lit ''3'') = Inr [0x41, 0xFF, 0x42]"
  "get_media drive_env (lit ''4'') = Inr [0x25, 0x50, 0x44, 0x46]"
  "get_media drive_env (lit ''5'') = Inr [0x50, 0x4B]"
  "get_media drive_env (lit ''6'') = Inr [0x89, 0x50]"
  "get_media drive_env (lit ''7'') = Inr [0x50, 0x4B]"
  "get_media drive_env (lit ''8'') = Inl (lit ''HttpError 404'')"
  by (simp_all add: drive_env_def drive_media_def lit_def)

lemma drive_lookup:
  "dict_get drive_options (lit ''a.txt'') = Some file_a"
  "dict_get drive_options (lit ''b.txt'') = Some file_b"
  "dict_get drive_options (lit ''f.png'') = Some file_f"
  "dict_get drive_options (lit ''g.bin'') = Some file_g"
  "dict_get drive_options (lit ''h.txt'') = Some file_h"
  by (simp_all add: dict_get_def drive_options_def lit_def)

lemma text_plain: "prefix (lit ''text/'') (lit ''text/plain'')"
  by (simp add: lit_def)

lemma zip_unrecognized: "\<not> recognized (lit ''application/zip'')"
  by (simp add: recognized_def lit_def)

lemma decode_examples:
  "decode_utf8_ignore [0x41] = lit ''A''" "decode_utf8_ignore [0x42] = lit ''B''"
  "decode_utf8_ignore [0x41, 0xFF, 0x42] = lit ''AB''"
  "decode_utf8_replace [0x41, 0xFF, 0x42] = [0x41, 0xFFFD, 0x42]"
  by (simp_all add: decode_utf8_ignore_def decode_utf8_replace_def utf8_defs lit_def)


lemma drive_extract:
  "get_file_content drive_env file_a = Inr (Text (lit ''A''))"
  "get_file_content drive_env file_b = Inr (Text (lit ''B''))"
  "get_file_content drive_env file_f = Inr (Image [0x89, 0x50])"
  "get_file_content drive_env file_g =
     Inr (Unsupported (lit ''Unsupported MIME type: '' @ lit ''application/zip''))"
  "get_file_content drive_env file_h =
     Inr (Unsupported (lit ''Error reading file: '' @ lit ''HttpError 404''))"
proof -
  show "get_file_content drive_env file_a = Inr (Text (lit ''A''))"
    by (simp add: get_file_content_def try_extract_def drive_ids drive_mimes drive_fetch
          text_plain decode_examples)
  show "get_file_content drive_env file_b = Inr (Text (lit ''B''))"
    by (simp add: get_file_content_def try_extract_def drive_ids drive_mimes drive_fetch
          text_plain decode_examples)
  show "get_file_content drive_env file_f = Inr (Image [0x89, 0x50])"
    by (simp add: get_file_content_def try_extract_def drive_ids drive_mimes drive_fetch)
       (simp add: lit_def)
  show "get_file_content drive_env file_g =
     Inr (Unsupported (lit ''Unsupported MIME type: '' @ lit ''application/zip''))"
    by (simp add: get_file_content_def try_extract_unrecognized zip_unrecognized
          drive_ids drive_mimes drive_fetch)
  show "get_file_content drive_env file_h =
     Inr (Unsupported (lit ''Error reading file: '' @ lit ''HttpError 404''))"
    by (simp add: get_file_content_def try_extract_def drive_ids drive_mimes drive_fetch)
qed

lemma process_file_text:
  assumes "dict_get opts file_display = Some file_info"
    and "get_file_content env file_info = Inr (Text content)"
    and "file_info (lit ''name'') = Some name"
  shows "process_file env opts file_display st =
     Inr (st\<lparr>prompt_parts := prompt_parts st @ [PyStr (document_part name content)],
            ui := ui st @ [StatusUpdate (lit ''Processing: '' @ file_display @ lit ''...'')]\<rparr>)"
  using assms by (simp add: process_file_def)


lemma process_file_image_raises:
  assumes "dict_get opts file_display = Some file_info"
    and "get_file_content env file_info = Inr (Image content)"
    and "Image_open env content = Inl e"
  shows "process_file env opts file_display st = Inl (Uncaught e)"
  using assms by (simp add: process_file_def)

lemma get_gemini_response_cases:
  "get_gemini_response env api_key parts =
     Inr (case try_generate env api_key parts of
            Inl e \<Rightarrow> lit ''ERROR: Could not generate response from Gemini. Details: '' @ e
          | Inr t \<Rightarrow> t)"
  by (simp add: get_gemini_response_def split: sum.splits)

lemma analyze_files_sends:
  assumes "process_files env opts selected
             \<lparr>prompt_parts = [], ui = [Status (lit ''Processing files...'')]\<rparr> = Inr st"
    and "prompt_parts st \<noteq> []"
    and "secrets_GOOGLE_API_KEY env = Some api_key"
    and "get_gemini_response env api_key (PyStr user_prompt # prompt_parts st) = Inr r"
  shows "\<exists>st'. analyze_files env opts selected user_prompt = Inr st' \<and>
     prompt_parts st' = PyStr user_prompt # prompt_parts st \<and>
     ui st' = ui st @
       [StatusComplete (lit ''All files processed!''),
        Info (lit ''Sending '' @ str_nat (length selected) @
              lit '' file(s) to Gemini for analysis...''),
        Spinner ([0xF0, 0x178, 0xA4, 0x2013] @ lit '' Gemini is thinking...''),
        GeminiCall api_key (PyStr user_prompt # prompt_parts st),
        Subheader (lit ''Gemini'' @ [39] @ lit ''s Response:''),
        Write r]"
  using assms by (simp add: analyze_files_def Let_def)

lemma analyze_two_texts:
  assumes "dict_get opts n1 = Some f1" and "dict_get opts n2 = Some f2"
    and "get_file_content env f1 = Inr (Text a)"
    and "get_file_content env f2 = Inr (Text b)"
    and "f1 (lit ''name'') = Some name1" and "f2 (lit ''name'') = Some name2"
    and "secrets_GOOGLE_API_KEY env = Some api_key"
  shows "parts_sent (analyze_files env opts [n1, n2] p) =
     [[PyStr p, PyStr (document_part name1 a), PyStr (document_part name2 b)]]"
  using assms
  by (simp add: parts_sent_def analyze_files_def process_file_text get_gemini_response_cases
        Let_def)

lemma drive_secret: "secrets_GOOGLE_API_KEY drive_env = Some (lit ''key'')"
  by (simp add: drive_env_def)


lemma quota_facts:
  "get_file_content quota_env file_a = Inr (Text (lit ''A''))"
  "secrets_GOOGLE_API_KEY quota_env = Some (lit ''key'')"
  "try_generate quota_env k parts = Inl (lit ''429 quota'')"
proof -
  have m: "get_media quota_env (lit ''1'') = Inr [0x41]"
    by (simp add: quota_env_def drive_env_def drive_media_def lit_def)
  show "get_file_content quota_env file_a = Inr (Text (lit ''A''))"
    by (simp add: get_file_content_def try_extract_def drive_ids drive_mimes m text_plain
          decode_examples)
  show "secrets_GOOGLE_API_KEY quota_env = Some (lit ''key'')"
    by (simp add: quota_env_def drive_env_def)
  show "try_generate quota_env k parts = Inl (lit ''429 quota'')"
    by (simp add: try_generate_def quota_env_def drive_env_def)
qed


lemma fetch_raises:
  assumes "file_info (lit ''id'') = Some file_id" and "get_media env file_id = Inl e"
  shows "get_file_content env file_info = Inr (Unsupported (lit ''Error reading file: '' @ e))"
  using assms by (simp add: get_file_content_def try_extract_def)

lemma pdf_open_raises:
  assumes "file_info (lit ''id'') = Some file_id" and "get_media env file_id = Inr b"
    and "mime_type_of file_info = lit ''application/pdf''"
    and "fitz_open env b = Inl e"
  shows "get_file_content env file_info = Inr (Unsupported (lit ''Error reading file: '' @ e))"
  using assms by (simp add: get_file_content_def try_extract_def not_text_pdf)

lemma pdf_page_raises:
  assumes "file_info (lit ''id'') = Some file_id" and "get_media env file_id = Inr b"
    and "mime_type_of file_info = lit ''application/pdf''"
    and "fitz_open env b = Inr (map Inr ts @ Inl e # rest)"
  shows "get_file_content env file_info = Inr (Unsupported (lit ''Error reading file: '' @ e))"
  using assms by (simp add: get_file_content_def try_extract_def not_text_pdf pdf_pages_raises)

lemma docx_open_raises:
  assumes "file_info (lit ''id'') = Some file_id" and "get_media env file_id = Inr b"
    and "mime_type_of file_info = lit ''application/vnd.openxmlformats-officedocument.wordprocessingml.document'' \<or> mime_type_of file_info = lit ''application/msword''"
    and "docx_Document env b = Inl e"
  shows "get_file_content env file_info = Inr (Unsupported (lit ''Error reading file: '' @ e))"
  using assms by (auto simp add: get_file_content_def try_extract_def word_branch)

lemma docx_paragraph_raises:
  assumes "file_info (lit ''id'') = Some file_id" and "get_media env file_id = Inr b"
    and "mime_type_of file_info = lit ''application/vnd.openxmlformats-officedocument.wordprocessingml.document'' \<or> mime_type_of file_info = lit ''application/msword''"
    and "docx_Document env b = Inr (map Inr ts @ Inl e # rest)"
  shows "get_file_content env file_info = Inr (Unsupported (lit ''Error reading file: '' @ e))"
  using assms
  by (auto simp add: get_file_content_def try_extract_def word_branch paragraph_texts_raises)

lemma pptx_open_raises:
  assumes "file_info (lit ''id'') = Some file_id" and "get_media env file_id = Inr b"
    and "mime_type_of file_info = lit ''application/vnd.openxmlformats-officedocument.presentationml.presentation''"
    and "pptx_Presentation env b = Inl e"
  shows "get_file_content env file_info = Inr (Unsupported (lit ''Error reading file: '' @ e))"
  using assms by (simp add: get_file_content_def try_extract_def pptx_branch)

lemma pptx_shape_raises:
  assumes "file_info (lit ''id'') = Some file_id" and "get_media env file_id = Inr b"
    and "mime_type_of file_info = lit ''application/vnd.openxmlformats-officedocument.presentationml.presentation''"
    and "pptx_Presentation env b = Inr slides"
    and "concat slides = pre @ TextRaises e # rest"
    and "\<forall>sh \<in> set pre. \<not> text_raises sh"
  shows "get_file_content env file_info = Inr (Unsupported (lit ''Error reading file: '' @ e))"
proof -
  have "prs_slides [] slides = Inl e"
    unfolding prs_slides_concat assms(5) by (rule slide_shapes_raises [OF assms(6)])
  then show ?thesis
    using assms(1-4) by (simp add: get_file_content_def try_extract_def pptx_branch)
qed

lemma unrecognized_fetched:
  assumes "file_info (lit ''id'') = Some file_id" and "get_media env file_id = Inr b"
    and "\<not> recognized (mime_type_of file_info)"
  shows "get_file_content env file_info =
     Inr (Unsupported (lit ''Unsupported MIME type: '' @ mime_type_of file_info))"
  using assms by (simp add: get_file_content_def try_extract_unrecognized)

lemma broken_facts:
  "get_media broken_env = drive_media"
  "fitz_open broken_env b = Inl (lit ''cannot open broken document'')"
  "docx_Document broken_env b = Inr (map Inr [lit ''L1''] @ Inl (lit ''bad paragraph'') # [])"
  "pptx_Presentation broken_env b =
     Inr [[HasText (lit ''T'')], [NoText, TextRaises (lit ''bad shape''), HasText (lit ''U'')]]"
  by (simp_all add: broken_env_def drive_env_def)

lemma file_w_facts:
  "file_w (lit ''id'') = Some (lit ''10'')"
  "mime_type_of file_w = lit ''application/msword''"
  "drive_media (lit ''10'') = Inr [0xD0, 0xCF]"
  by (simp_all add: file_w_def mk_file_def mime_type_of_def drive_media_def lit_def)

lemma lit_append: "lit a @ lit b = lit (a @ b)"
  by (simp add: lit_def)

lemma echo_facts:
  "try_generate echo_env k parts =
     Inr (lit ''ERROR: Could not generate response from Gemini. Details: 429 quota'')"
  by (simp add: try_generate_def echo_env_def drive_env_def)


section \<open>Extraction: \<^verbatim>\<open>get_file_content\<close>\<close>

text \<open>
  Claim C2, as the code has it. For a file record (the key \<^verbatim>\<open>id\<close> is present) whose
  declared media type starts with \<^verbatim>\<open>text/\<close> and whose bytes Drive returns, the result
  is the text variant holding the UTF-8 decoding of the bytes in which every undecodable
  span is dropped (\<^verbatim>\<open>errors="ignore"\<close>); nothing is put in its place.
\<close>

theorem text_decoded_ignoring:
  assumes "file_info (lit ''id'') = Some file_id"
    and "prefix (lit ''text/'') (mime_type_of file_info)"
    and "get_media env file_id = Inr file_bytes"
  shows "get_file_content env file_info = Inr (Text (decode_utf8_ignore file_bytes))"
  using assms by (simp add: get_file_content_def try_extract_def)


theorem text_decoded_ignoring_witness:
  "file_c (lit ''id'') = Some (lit ''3'') \<and>
   prefix (lit ''text/'') (mime_type_of file_c) \<and>
   get_media drive_env (lit ''3'') = Inr [0x41, 0xFF, 0x42] \<and>
   get_file_content drive_env file_c = Inr (Text (lit ''AB''))"
proof -
  have p: "prefix (lit ''text/'') (mime_type_of file_c)"
    by (simp add: drive_mimes text_plain)
  show ?thesis
    using text_decoded_ignoring [OF drive_ids(3) p drive_fetch(3)] p
    by (simp add: drive_ids drive_fetch decode_examples)
qed

text \<open>
  The reading of C2 with the undecodable bytes replaced fails on the three bytes
  \<^verbatim>\<open>41 FF 42\<close>: the code returns \<^verbatim>\<open>AB\<close>, the replacing decoder \<^verbatim>\<open>A\<close>, \<^verbatim>\<open>U+FFFD\<close>, \<^verbatim>\<open>B\<close>.
\<close>

theorem text_replaced_counterexample:
  "mime_type_of file_c = lit ''text/plain'' \<and>
   get_media drive_env (lit ''3'') = Inr [0x41, 0xFF, 0x42] \<and>
   decode_utf8_replace [0x41, 0xFF, 0x42] = [0x41, 0xFFFD, 0x42] \<and>
   get_file_content drive_env file_c = Inr (Text [0x41, 0x42]) \<and>
   get_file_content drive_env file_c \<noteq> Inr (Text (decode_utf8_replace [0x41, 0xFF, 0x42]))"
  by (simp add: get_file_content_def try_extract_def drive_ids drive_mimes drive_fetch
        text_plain decode_examples) (simp add: lit_def)

text \<open>
  Claim C3. For a file record, whatever the fetch and the decoders do,
  \<^verbatim>\<open>get_file_content\<close> returns and does not raise. Each way the \<^verbatim>\<open>try\<close> block can
  raise ends in the unsupported variant with the reason \<^verbatim>\<open>Error reading file: \<close>
  followed by the text of the exception: the fetch, opening the PDF, reading a page,
  opening the Word document, reading a paragraph, opening the presentation, reading
  the text of a shape. For a media type that no branch recognizes the result is the
  unsupported variant too, with the reason \<^verbatim>\<open>Unsupported MIME type: \<close> followed by the
  media type when the bytes were fetched.
\<close>

theorem get_file_content_never_raises:
  assumes "file_info (lit ''id'') = Some file_id"
  shows "(\<exists>r. get_file_content env file_info = Inr r) \<and>
         (\<forall>e. get_media env file_id = Inl e \<longrightarrow>
            get_file_content env file_info = Inr (Unsupported (lit ''Error reading file: '' @ e))) \<and>
         (\<forall>b e. get_media env file_id = Inr b \<and>
            mime_type_of file_info = lit ''application/pdf'' \<and>
            fitz_open env b = Inl e \<longrightarrow>
            get_file_content env file_info = Inr (Unsupported (lit ''Error reading file: '' @ e))) \<and>
         (\<forall>b ts e rest. get_media env file_id = Inr b \<and>
            mime_type_of file_info = lit ''application/pdf'' \<and>
            fitz_open env b = Inr (map Inr ts @ Inl e # rest) \<longrightarrow>
            get_file_content env file_info = Inr (Unsupported (lit ''Error reading file: '' @ e))) \<and>
         (\<forall>b e. get_media env file_id = Inr b \<and>
            (mime_type_of file_info = 
              lit ''application/vnd.openxmlformats-officedocument.wordprocessingml.document'' \<or>
             mime_type_of file_info = lit ''application/msword'') \<and>
            docx_Document env b = Inl e \<longrightarrow>
            get_file_content env file_info = Inr (Unsupported (lit ''Error reading file: '' @ e))) \<and>
         (\<forall>b ts e rest. get_media env file_id = Inr b \<and>
            (mime_type_of file_info = 
              lit ''application/vnd.openxmlformats-officedocument.wordprocessingml.document'' \<or>
             mime_type_of file_info = lit ''application/msword'') \<and>
            docx_Document env b = Inr (map Inr ts @ Inl e # rest) \<longrightarrow>
            get_file_content env file_info = Inr (Unsupported (lit ''Error reading file: '' @ e))) \<and>
         (\<forall>b e. get_media env file_id = Inr b \<and>
            mime_type_of file_info = 
              lit ''application/vnd.openxmlformats-officedocument.presentationml.presentation'' \<and>
            pptx_Presentation env b = Inl e \<longrightarrow>
            get_file_content env file_info = Inr (Unsupported (lit ''Error reading file: '' @ e))) \<and>
         (\<forall>b slides pre e rest. get_media env file_id = Inr b \<and>
            mime_type_of file_info = 
              lit ''application/vnd.openxmlformats-officedocument.presentationml.presentation'' \<and>
            pptx_Presentation env b = Inr slides \<and>
            concat slides = pre @ TextRaises e # rest \<and>
            (\<forall>sh \<in> set pre. \<not> text_raises sh) \<longrightarrow>
            get_file_content env file_info = Inr (Unsupported (lit ''Error reading file: '' @ e))) \<and>
         (\<forall>e. try_extract env file_id (mime_type_of file_info) = Inl e \<longrightarrow>
            get_file_content env file_info = Inr (Unsupported (lit ''Error reading file: '' @ e))) \<and>
         (\<forall>b. get_media env file_id = Inr b \<and> \<not> recognized (mime_type_of file_info) \<longrightarrow>
            get_file_content env file_info =
              Inr (Unsupported (lit ''Unsupported MIME type: '' @ mime_type_of file_info))) \<and>
         (\<not> recognized (mime_type_of file_info) \<longrightarrow>
            (\<exists>reason. get_file_content env file_info = Inr (Unsupported reason) \<and>
               (reason = lit ''Unsupported MIME type: '' @ mime_type_of file_info \<or>
                (\<exists>e. reason = lit ''Error reading file: '' @ e))))"
proof (intro conjI allI impI)
  show "\<exists>r. get_file_content env file_info = Inr r"
    using assms by (simp add: get_file_content_def split: sum.splits)
next
  fix e assume "get_media env file_id = Inl e"
  then show "get_file_content env file_info = Inr (Unsupported (lit ''Error reading file: '' @ e))"
    using assms by (simp add: fetch_raises)
next
  fix b e
  assume "get_media env file_id = Inr b \<and> mime_type_of file_info = lit ''application/pdf'' \<and>
    fitz_open env b = Inl e"
  then show "get_file_content env file_info = Inr (Unsupported (lit ''Error reading file: '' @ e))"
    using assms pdf_open_raises [where file_info = file_info and file_id = file_id and env = env]
    by blast
next
  fix b ts e rest
  assume "get_media env file_id = Inr b \<and> mime_type_of file_info = lit ''application/pdf'' \<and>
    fitz_open env b = Inr (map Inr ts @ Inl e # rest)"
  then show "get_file_content env file_info = Inr (Unsupported (lit ''Error reading file: '' @ e))"
    using assms pdf_page_raises [where file_info = file_info and file_id = file_id and env = env]
    by blast
next
  fix b e
  assume "get_media env file_id = Inr b \<and>
    (mime_type_of file_info = 
              lit ''application/vnd.openxmlformats-officedocument.wordprocessingml.document'' \<or>
     mime_type_of file_info = lit ''application/msword'') \<and>
    docx_Document env b = Inl e"
  then show "get_file_content env file_info = Inr (Unsupported (lit ''Error reading file: '' @ e))"
    using assms docx_open_raises [where file_info = file_info and file_id = file_id and env = env]
    by blast
next
  fix b ts e rest
  assume "get_media env file_id = Inr b \<and>
    (mime_type_of file_info = 
              lit ''application/vnd.openxmlformats-officedocument.wordprocessingml.document'' \<or>
     mime_type_of file_info = lit ''application/msword'') \<and>
    docx_Document env b = Inr (map Inr ts @ Inl e # rest)"
  then show "get_file_content env file_info = Inr (Unsupported (lit ''Error reading file: '' @ e))"
    using assms docx_paragraph_raises [where file_info = file_info and file_id = file_id and env = env]
    by blast
next
  fix b e
  assume "get_media env file_id = Inr b \<and> mime_type_of file_info = 
              lit ''application/vnd.openxmlformats-officedocument.presentationml.presentation'' \<and>
    pptx_Presentation env b = Inl e"
  then show "get_file_content env file_info = Inr (Unsupported (lit ''Error reading file: '' @ e))"
    using assms pptx_open_raises [where file_info = file_info and file_id = file_id and env = env]
    by blast
next
  fix b slides pre e rest
  assume "get_media env file_id = Inr b \<and> mime_type_of file_info = 
              lit ''application/vnd.openxmlformats-officedocument.presentationml.presentation'' \<and>
    pptx_Presentation env b = Inr slides \<and>
    concat slides = pre @ TextRaises e # rest \<and>
    (\<forall>sh \<in> set pre. \<not> text_raises sh)"
  then show "get_file_content env file_info = Inr (Unsupported (lit ''Error reading file: '' @ e))"
    using assms pptx_shape_raises [where file_info = file_info and file_id = file_id and env = env]
    by blast
next
  fix e assume "try_extract env file_id (mime_type_of file_info) = Inl e"
  then show "get_file_content env file_info = Inr (Unsupported (lit ''Error reading file: '' @ e))"
    using assms by (simp add: get_file_content_def)
next
  fix b assume "get_media env file_id = Inr b \<and> \<not> recognized (mime_type_of file_info)"
  then show "get_file_content env file_info =
      Inr (Unsupported (lit ''Unsupported MIME type: '' @ mime_type_of file_info))"
    using assms unrecognized_fetched [where file_info = file_info and file_id = file_id and env = env]
    by blast
next
  assume "\<not> recognized (mime_type_of file_info)"
  then show "\<exists>reason. get_file_content env file_info = Inr (Unsupported reason) \<and>
               (reason = lit ''Unsupported MIME type: '' @ mime_type_of file_info \<or>
                (\<exists>e. reason = lit ''Error reading file: '' @ e))"
    using assms
    by (cases "get_media env file_id") (simp_all add: get_file_content_def try_extract_unrecognized)
qed

theorem get_file_content_never_raises_witness:
  "file_h (lit ''id'') = Some (lit ''8'') \<and>
   get_media drive_env (lit ''8'') = Inl (lit ''HttpError 404'') \<and>
   get_file_content drive_env file_h =
     Inr (Unsupported (lit ''Error reading file: HttpError 404'')) \<and>
   file_d (lit ''id'') = Some (lit ''4'') \<and>
   get_media broken_env (lit ''4'') = Inr [0x25, 0x50, 0x44, 0x46] \<and>
   fitz_open broken_env [0x25, 0x50, 0x44, 0x46] = Inl (lit ''cannot open broken document'') \<and>
   get_file_content broken_env file_d =
     Inr (Unsupported (lit ''Error reading file: cannot open broken document'')) \<and>
   file_w (lit ''id'') = Some (lit ''10'') \<and>
   docx_Document broken_env [0xD0, 0xCF] = Inr [Inr (lit ''L1''), Inl (lit ''bad paragraph'')] \<and>
   get_file_content broken_env file_w =
     Inr (Unsupported (lit ''Error reading file: bad paragraph'')) \<and>
   file_e (lit ''id'') = Some (lit ''5'') \<and>
   pptx_Presentation broken_env [0x50, 0x4B] =
     Inr [[HasText (lit ''T'')], [NoText, TextRaises (lit ''bad shape''), HasText (lit ''U'')]] \<and>
   get_file_content broken_env file_e =
     Inr (Unsupported (lit ''Error reading file: bad shape'')) \<and>
   file_g (lit ''id'') = Some (lit ''7'') \<and>
   \<not> recognized (mime_type_of file_g) \<and>
   get_file_content drive_env file_g =
     Inr (Unsupported (lit ''Unsupported MIME type: application/zip''))"
proof -
  have m: "get_media broken_env (lit ''4'') = Inr [0x25, 0x50, 0x44, 0x46]"
    "get_media broken_env (lit ''10'') = Inr [0xD0, 0xCF]"
    "get_media broken_env (lit ''5'') = Inr [0x50, 0x4B]"
    using drive_fetch(4,5) file_w_facts(3) by (simp_all add: broken_facts(1) drive_env_def)
  have h: "get_file_content drive_env file_h =
      Inr (Unsupported (lit ''Error reading file: '' @ lit ''HttpError 404''))"
    using get_file_content_never_raises
        [where file_info = file_h and file_id = "lit ''8''" and env = drive_env,
          OF drive_ids(8), THEN conjunct2, THEN conjunct1]
      drive_fetch(8) by blast
  have d: "get_file_content broken_env file_d =
      Inr (Unsupported (lit ''Error reading file: '' @ lit ''cannot open broken document''))"
    using get_file_content_never_raises
        [where file_info = file_d and file_id = "lit ''4''" and env = broken_env,
          OF drive_ids(4), THEN conjunct2, THEN conjunct2, THEN conjunct1]
      m(1) drive_mimes(4) broken_facts(2) by blast
  have w: "get_file_content broken_env file_w =
      Inr (Unsupported (lit ''Error reading file: '' @ lit ''bad paragraph''))"
    using get_file_content_never_raises
        [where file_info = file_w and file_id = "lit ''10''" and env = broken_env,
          OF file_w_facts(1), THEN conjunct2, THEN conjunct2, THEN conjunct2, THEN conjunct2, THEN conjunct2, THEN conjunct1]
      file_w_facts(2) m(2) broken_facts(3) by blast
  have c: "concat [[HasText (lit ''T'')],
        [NoText, TextRaises (lit ''bad shape''), HasText (lit ''U'')]] =
      [HasText (lit ''T''), NoText] @ TextRaises (lit ''bad shape'') # [HasText (lit ''U'')]"
    by simp
  have n: "\<forall>sh \<in> set [HasText (lit ''T''), NoText]. \<not> text_raises sh" by simp
  have e: "get_file_content broken_env file_e =
      Inr (Unsupported (lit ''Error reading file: '' @ lit ''bad shape''))"
    using get_file_content_never_raises
        [where file_info = file_e and file_id = "lit ''5''" and env = broken_env,
          OF drive_ids(5), THEN conjunct2, THEN conjunct2, THEN conjunct2, THEN conjunct2, THEN conjunct2, THEN conjunct2, THEN conjunct2, THEN conjunct1]
      m(3) drive_mimes(5) broken_facts(4) c n by blast
  have z: "\<not> recognized (mime_type_of file_g)"
    by (simp add: drive_mimes zip_unrecognized)
  have g: "get_file_content drive_env file_g =
      Inr (Unsupported (lit ''Unsupported MIME type: '' @ mime_type_of file_g))"
    using get_file_content_never_raises
        [where file_info = file_g and file_id = "lit ''7''" and env = drive_env,
          OF drive_ids(7), THEN conjunct2, THEN conjunct2, THEN conjunct2, THEN conjunct2, THEN conjunct2, THEN conjunct2, THEN conjunct2, THEN conjunct2, THEN conjunct2, THEN conjunct1]
      drive_fetch(7) z by blast
  show ?thesis
    using h d w e g z m
    by (simp add: drive_ids drive_fetch file_w_facts broken_facts drive_mimes lit_append)
qed


text \<open>
  Claim C7. For a file record whose declared media type is \<^verbatim>\<open>application/pdf\<close>, fetched
  and opened as a document whose pages yield the texts \<open>page_texts\<close>, the result is the
  text variant holding the concatenation of the page texts, first page first.
\<close>

theorem pdf_pages_in_order:
  assumes "file_info (lit ''id'') = Some file_id"
    and "mime_type_of file_info = lit ''application/pdf''"
    and "get_media env file_id = Inr file_bytes"
    and "fitz_open env file_bytes = Inr (map Inr page_texts)"
  shows "get_file_content env file_info = Inr (Text (concat page_texts))"
  using assms by (simp add: get_file_content_def try_extract_def not_text_pdf pdf_pages_all)


theorem pdf_pages_in_order_witness:
  "file_d (lit ''id'') = Some (lit ''4'') \<and>
   mime_type_of file_d = lit ''application/pdf'' \<and>
   get_media drive_env (lit ''4'') = Inr [0x25, 0x50, 0x44, 0x46] \<and>
   fitz_open drive_env [0x25, 0x50, 0x44, 0x46] = Inr (map Inr [lit ''P1'', lit ''P2'']) \<and>
   get_file_content drive_env file_d = Inr (Text (lit ''P1'' @ lit ''P2''))"
proof -
  have o: "fitz_open drive_env [0x25, 0x50, 0x44, 0x46] = Inr (map Inr [lit ''P1'', lit ''P2''])"
    by (simp add: drive_env_def)
  show ?thesis
    using pdf_pages_in_order [OF drive_ids(4) drive_mimes(4) drive_fetch(4) o] o
    by (simp add: drive_ids drive_mimes drive_fetch)
qed

text \<open>
  Claim C8. For a file record whose declared media type is the OOXML presentation type,
  fetched and opened as a presentation, the result is the text variant holding, slide
  after slide and shape after shape within a slide, the text of every shape that has
  one, each followed by a line break.
\<close>

theorem pptx_shapes_in_order:
  assumes "file_info (lit ''id'') = Some file_id"
    and "mime_type_of file_info =
           lit ''application/vnd.openxmlformats-officedocument.presentationml.presentation''"
    and "get_media env file_id = Inr file_bytes"
    and "pptx_Presentation env file_bytes = Inr slides"
    and "\<forall>sh \<in> set (concat slides). \<not> text_raises sh"
  shows "get_file_content env file_info = Inr (Text (concat (map shape_line (concat slides))))"
  using assms(1-4) prs_slides_all [OF assms(5), of "[]"]
  by (simp add: get_file_content_def try_extract_def pptx_branch)


theorem pptx_shapes_in_order_witness:
  "file_e (lit ''id'') = Some (lit ''5'') \<and>
   mime_type_of file_e =
     lit ''application/vnd.openxmlformats-officedocument.presentationml.presentation'' \<and>
   get_media drive_env (lit ''5'') = Inr [0x50, 0x4B] \<and>
   pptx_Presentation drive_env [0x50, 0x4B] =
     Inr [[HasText (lit ''T''), NoText], [HasText (lit ''U'')]] \<and>
   get_file_content drive_env file_e = Inr (Text (lit ''T'' @ [10] @ lit ''U'' @ [10]))"
proof -
  have o: "pptx_Presentation drive_env [0x50, 0x4B] =
     Inr [[HasText (lit ''T''), NoText], [HasText (lit ''U'')]]"
    by (simp add: drive_env_def)
  have n: "\<forall>sh \<in> set (concat [[HasText (lit ''T''), NoText], [HasText (lit ''U'')]]).
     \<not> text_raises sh"
    by simp
  show ?thesis
    using pptx_shapes_in_order [OF drive_ids(5) drive_mimes(5) drive_fetch(5) o n] o
    by (simp add: drive_ids drive_mimes drive_fetch)
qed

section \<open>The selection map\<close>

text \<open>
  Claim C10. For a listing of file records (each has a \<^verbatim>\<open>name\<close>), the map from names
  to records has every listed name exactly once as a key, and the record under a name
  is the last one listed with that name; the records listed earlier under the same name
  cannot be selected.
\<close>

theorem file_options_last_wins:
  assumes "\<forall>item \<in> set items. item (lit ''name'') \<noteq> None"
  shows "\<exists>opts. file_options items = Inr opts \<and>
     distinct (dict_keys opts) \<and>
     set (dict_keys opts) = {n. \<exists>item \<in> set items. item (lit ''name'') = Some n} \<and>
     (\<forall>n. dict_get opts n =
        (if filter (\<lambda>i. i (lit ''name'') = Some n) items = [] then None
         else Some (last (filter (\<lambda>i. i (lit ''name'') = Some n) items))))"
proof -
  from file_options_from_named [OF assms, of "[]"]
  obtain opts where opts: "file_options_from [] items = Inr opts"
    "distinct (map fst opts)"
    "set (map fst opts) = {n. \<exists>item \<in> set items. item (lit ''name'') = Some n}"
    "\<And>n. map_of opts n =
        (if filter (\<lambda>i. i (lit ''name'') = Some n) items = [] then map_of [] n
         else Some (last (filter (\<lambda>i. i (lit ''name'') = Some n) items)))"
    by auto
  have "\<forall>n. dict_get opts n =
        (if filter (\<lambda>i. i (lit ''name'') = Some n) items = [] then None
         else Some (last (filter (\<lambda>i. i (lit ''name'') = Some n) items)))"
    by (simp add: dict_get_def opts(4))
  then show ?thesis
    using opts(1-3) unfolding file_options_def dict_keys_def by blast
qed


theorem file_options_last_wins_witness:
  "file_a (lit ''name'') = Some (lit ''a.txt'') \<and>
   file_b (lit ''name'') = Some (lit ''b.txt'') \<and>
   file_a2 (lit ''name'') = Some (lit ''a.txt'') \<and>
   file_a (lit ''id'') = Some (lit ''1'') \<and>
   file_a2 (lit ''id'') = Some (lit ''9'') \<and>
   (\<exists>opts. file_options [file_a, file_b, file_a2] = Inr opts \<and>
      distinct (dict_keys opts) \<and>
      set (dict_keys opts) = {lit ''a.txt'', lit ''b.txt''} \<and>
      dict_get opts (lit ''a.txt'') = Some file_a2 \<and>
      dict_get opts (lit ''b.txt'') = Some file_b)"
proof -
  have h: "\<forall>item \<in> set [file_a, file_b, file_a2]. item (lit ''name'') \<noteq> None"
    by (simp add: drive_names)
  have ne: "lit ''b.txt'' \<noteq> lit ''a.txt''" by (simp add: lit_def)
  from file_options_last_wins [OF h] obtain opts where o:
    "file_options [file_a, file_b, file_a2] = Inr opts"
    "distinct (dict_keys opts)"
    "set (dict_keys opts) =
       {n. \<exists>item \<in> set [file_a, file_b, file_a2]. item (lit ''name'') = Some n}"
    "\<And>n. dict_get opts n =
       (if filter (\<lambda>i. i (lit ''name'') = Some n) [file_a, file_b, file_a2] = [] then None
        else Some (last (filter (\<lambda>i. i (lit ''name'') = Some n) [file_a, file_b, file_a2])))"
    by blast
  have k: "set (dict_keys opts) = {lit ''a.txt'', lit ''b.txt''}"
    unfolding o(3) using ne by (auto simp: drive_names)
  have a: "dict_get opts (lit ''a.txt'') = Some file_a2"
    unfolding o(4) using ne by (simp add: drive_names)
  have b: "dict_get opts (lit ''b.txt'') = Some file_b"
    unfolding o(4) using ne by (simp add: drive_names)
  have i: "file_a2 (lit ''id'') = Some (lit ''9'')"
    by (simp add: file_a2_def mk_file_def lit_def)
  show ?thesis
    using o(1,2) k a b i by (simp add: drive_names drive_ids)
qed

section \<open>The button handler\<close>

text \<open>
  Claim C6. The selection is processed from left to right. A selected file whose
  extraction is the unsupported variant leaves \<^verbatim>\<open>prompt_parts\<close> as it is, puts a
  warning with its name and the reason on the page, and the loop goes on with the files
  selected after it.
\<close>

theorem unsupported_file_skipped:
  assumes "dict_get opts name = Some file_info"
    and "get_file_content env file_info = Inr (Unsupported reason)"
    and "file_info (lit ''name'') = Some fname"
  shows "process_files env opts (before @ name # after) st =
     (case process_files env opts before st of
        Inl x \<Rightarrow> Inl x
      | Inr st' \<Rightarrow>
          process_files env opts after
            (st'\<lparr>ui := ui st' @ [StatusUpdate (lit ''Processing: '' @ name @ lit ''...''),
                                Warning (skip_warning fname reason)]\<rparr>))"
  by (simp add: process_files_append process_file_unsupported [OF assms] split: sum.splits)


theorem unsupported_file_skipped_witness:
  "dict_get drive_options (lit ''g.bin'') = Some file_g \<and>
   get_file_content drive_env file_g =
     Inr (Unsupported (lit ''Unsupported MIME type: '' @ lit ''application/zip'')) \<and>
   file_g (lit ''name'') = Some (lit ''g.bin'') \<and>
   process_files drive_env drive_options [lit ''a.txt'', lit ''g.bin'', lit ''b.txt''] empty_run =
     Inr \<lparr>prompt_parts =
            [PyStr (document_part (lit ''a.txt'') (lit ''A'')),
             PyStr (document_part (lit ''b.txt'') (lit ''B''))],
          ui =
            [StatusUpdate (lit ''Processing: '' @ lit ''a.txt'' @ lit ''...''),
             StatusUpdate (lit ''Processing: '' @ lit ''g.bin'' @ lit ''...''),
             Warning (skip_warning (lit ''g.bin'')
                        (lit ''Unsupported MIME type: '' @ lit ''application/zip'')),
             StatusUpdate (lit ''Processing: '' @ lit ''b.txt'' @ lit ''...'')]\<rparr>"
  using unsupported_file_skipped [OF drive_lookup(4) drive_extract(4) drive_names(4),
      of "[lit ''a.txt'']" "[lit ''b.txt'']" empty_run]
  by (simp add: drive_lookup drive_extract drive_names empty_run_def
        process_file_text [OF drive_lookup(1) drive_extract(1) drive_names(1)]
        process_file_text [OF drive_lookup(2) drive_extract(2) drive_names(2)])

text \<open>
  Claim C9. When every selected file extracts to the unsupported variant, the run ends
  with an empty \<^verbatim>\<open>prompt_parts\<close>, the model client is not called and no response is
  shown: the prompt of the user is not sent on its own.
\<close>

theorem no_model_call_when_all_unsupported:
  assumes "\<forall>name \<in> set selected. \<exists>file_info reason fname.
      dict_get opts name = Some file_info \<and>
      get_file_content env file_info = Inr (Unsupported reason) \<and>
      file_info (lit ''name'') = Some fname"
  shows "\<exists>st. analyze_files env opts selected user_prompt = Inr st \<and>
      prompt_parts st = [] \<and>
      (\<forall>ev \<in> set (ui st). \<not> is_model_call ev \<and> \<not> is_response_display ev)"
proof -
  let ?init = "\<lparr>prompt_parts = [], ui = [Status (lit ''Processing files...'')]\<rparr> :: 'a run"
  from process_files_all_unsupported [OF assms, of ?init] obtain st' where st':
    "process_files env opts selected ?init = Inr st'" "prompt_parts st' = []"
    "\<forall>ev \<in> set (ui st'). ev \<in> set (ui ?init) \<or> (\<not> is_model_call ev \<and> \<not> is_response_display ev)"
    by auto
  let ?st = "st'\<lparr>ui := ui st' @ [StatusComplete (lit ''All files processed!'')]\<rparr>"
  have "analyze_files env opts selected user_prompt = Inr ?st"
    using st'(1,2) by (simp add: analyze_files_def)
  moreover have "prompt_parts ?st = []" using st'(2) by simp
  moreover have "\<forall>ev \<in> set (ui ?st). \<not> is_model_call ev \<and> \<not> is_response_display ev"
    using st'(3) by auto
  ultimately show ?thesis by blast
qed


theorem no_model_call_when_all_unsupported_witness:
  "dict_get drive_options (lit ''g.bin'') = Some file_g \<and>
   get_file_content drive_env file_g =
     Inr (Unsupported (lit ''Unsupported MIME type: '' @ lit ''application/zip'')) \<and>
   file_g (lit ''name'') = Some (lit ''g.bin'') \<and>
   dict_get drive_options (lit ''h.txt'') = Some file_h \<and>
   get_file_content drive_env file_h =
     Inr (Unsupported (lit ''Error reading file: '' @ lit ''HttpError 404'')) \<and>
   file_h (lit ''name'') = Some (lit ''h.txt'') \<and>
   (\<exists>st. analyze_files drive_env drive_options [lit ''g.bin'', lit ''h.txt''] (lit ''Summarize'') =
           Inr st \<and>
      prompt_parts st = [] \<and>
      (\<forall>ev \<in> set (ui st). \<not> is_model_call ev \<and> \<not> is_response_display ev))"
proof -
  have h: "\<forall>name \<in> set [lit ''g.bin'', lit ''h.txt'']. \<exists>file_info reason fname.
      dict_get drive_options name = Some file_info \<and>
      get_file_content drive_env file_info = Inr (Unsupported reason) \<and>
      file_info (lit ''name'') = Some fname"
    using drive_lookup(4,5) drive_extract(4,5) drive_names(4,5) by simp
  show ?thesis
    using no_model_call_when_all_unsupported [OF h, of "lit ''Summarize''"]
    by (simp add: drive_lookup drive_extract drive_names)
qed

text \<open>
  Claim C1, as the code has it. With the prompt \<^verbatim>\<open>Summarize\<close> and two selected file
  records that extract to the texts \<^verbatim>\<open>A\<close> and \<^verbatim>\<open>B\<close>, the model client is called once,
  with three parts in this order: the prompt, then for each file, in the order of the
  selection, a line break, \<^verbatim>\<open>--- DOCUMENT: \<close>, the name of the file, \<^verbatim>\<open> ---\<close>, a line
  break and the text of the file.
\<close>

theorem summarize_parts:
  assumes "dict_get opts n1 = Some f1" and "dict_get opts n2 = Some f2"
    and "get_file_content env f1 = Inr (Text (lit ''A''))"
    and "get_file_content env f2 = Inr (Text (lit ''B''))"
    and "f1 (lit ''name'') = Some name1" and "f2 (lit ''name'') = Some name2"
    and "secrets_GOOGLE_API_KEY env = Some api_key"
  shows "parts_sent (analyze_files env opts [n1, n2] (lit ''Summarize'')) =
     [[PyStr (lit ''Summarize''),
       PyStr (document_part name1 (lit ''A'')),
       PyStr (document_part name2 (lit ''B''))]]"
  using assms by (rule analyze_two_texts)

theorem summarize_parts_witness:
  "dict_get drive_options (lit ''a.txt'') = Some file_a \<and>
   dict_get drive_options (lit ''b.txt'') = Some file_b \<and>
   get_file_content drive_env file_a = Inr (Text (lit ''A'')) \<and>
   get_file_content drive_env file_b = Inr (Text (lit ''B'')) \<and>
   file_a (lit ''name'') = Some (lit ''a.txt'') \<and>
   file_b (lit ''name'') = Some (lit ''b.txt'') \<and>
   secrets_GOOGLE_API_KEY drive_env = Some (lit ''key'') \<and>
   parts_sent (analyze_files drive_env drive_options [lit ''a.txt'', lit ''b.txt'']
                 (lit ''Summarize'')) =
     [[PyStr (lit ''Summarize''),
       PyStr (document_part (lit ''a.txt'') (lit ''A'')),
       PyStr (document_part (lit ''b.txt'') (lit ''B''))]]"
  using summarize_parts [OF drive_lookup(1) drive_lookup(2) drive_extract(1) drive_extract(2)
      drive_names(1) drive_names(2) drive_secret]
  by (simp add: drive_lookup drive_extract drive_names drive_secret)

text \<open>
  The parts of C1 without the document headers are not what is sent: for the files
  \<^verbatim>\<open>a.txt\<close> and \<^verbatim>\<open>b.txt\<close> of the example Drive the second and third part carry the
  header of line 148.
\<close>

theorem summarize_parts_counterexample:
  "get_file_content drive_env file_a = Inr (Text (lit ''A'')) \<and>
   get_file_content drive_env file_b = Inr (Text (lit ''B'')) \<and>
   parts_sent (analyze_files drive_env drive_options [lit ''a.txt'', lit ''b.txt'']
                 (lit ''Summarize'')) =
     [[PyStr (lit ''Summarize''),
       PyStr ([10] @ lit ''--- DOCUMENT: a.txt ---'' @ [10] @ lit ''A''),
       PyStr ([10] @ lit ''--- DOCUMENT: b.txt ---'' @ [10] @ lit ''B'')]] \<and>
   parts_sent (analyze_files drive_env drive_options [lit ''a.txt'', lit ''b.txt'']
                 (lit ''Summarize'')) \<noteq>
     [[PyStr (lit ''Summarize''), PyStr (lit ''A''), PyStr (lit ''B'')]]"
proof -
  have sent: "parts_sent (analyze_files drive_env drive_options [lit ''a.txt'', lit ''b.txt'']
                 (lit ''Summarize'')) =
     [[PyStr (lit ''Summarize''),
       PyStr (document_part (lit ''a.txt'') (lit ''A'')),
       PyStr (document_part (lit ''b.txt'') (lit ''B''))]]"
    by (rule analyze_two_texts [OF drive_lookup(1) drive_lookup(2) drive_extract(1)
          drive_extract(2) drive_names(1) drive_names(2) drive_secret])
  have a: "document_part (lit ''a.txt'') (lit ''A'') =
      [10] @ lit ''--- DOCUMENT: a.txt ---'' @ [10] @ lit ''A''"
    by (simp add: document_part_def lit_def)
  have b: "document_part (lit ''b.txt'') (lit ''B'') =
      [10] @ lit ''--- DOCUMENT: b.txt ---'' @ [10] @ lit ''B''"
    by (simp add: document_part_def lit_def)
  have ne: "[10] @ lit ''--- DOCUMENT: a.txt ---'' @ [10] @ lit ''A'' \<noteq> lit ''A''"
    by (simp add: lit_def)
  show ?thesis
    unfolding sent a b using ne by (simp add: drive_extract)
qed





section \<open>The model client: \<^verbatim>\<open>get_gemini_response\<close>\<close>

text \<open>
  Claim C5, as the code has it. Whatever configuring the client, the call of the model
  and reading the text of the response do, \<^verbatim>\<open>get_gemini_response\<close> returns a string and
  does not raise. When one of them raises, the string is
  \<^verbatim>\<open>ERROR: Could not generate response from Gemini. Details: \<close> followed by the text of
  the exception; otherwise it is the text of the response, unchanged. So the returned
  string begins with that prefix after every failure, and after a success it does not
  begin with it unless the reply of the model itself does. The handler writes the
  returned string under the same subheader in both cases.
\<close>

theorem get_gemini_response_never_raises:
  "(\<exists>s. get_gemini_response env api_key parts = Inr s) \<and>
   (\<forall>e. genai_configure env api_key = Inl e \<longrightarrow>
      get_gemini_response env api_key parts = Inr (
        lit ''ERROR: Could not generate response from Gemini. Details: '' @ e)) \<and>
   (\<forall>e. genai_configure env api_key = Inr () \<and>
      generate_content env api_key (lit ''gemini-1.5-pro-latest'') parts = Inl e \<longrightarrow>
      get_gemini_response env api_key parts = Inr (
        lit ''ERROR: Could not generate response from Gemini. Details: '' @ e)) \<and>
   (\<forall>e. genai_configure env api_key = Inr () \<and>
      generate_content env api_key (lit ''gemini-1.5-pro-latest'') parts = Inr (Inl e) \<longrightarrow>
      get_gemini_response env api_key parts = Inr (
        lit ''ERROR: Could not generate response from Gemini. Details: '' @ e)) \<and>
   (\<forall>t. genai_configure env api_key = Inr () \<and>
      generate_content env api_key (lit ''gemini-1.5-pro-latest'') parts = Inr (Inr t) \<longrightarrow>
      get_gemini_response env api_key parts = Inr t) \<and>
   (\<forall>e. try_generate env api_key parts = Inl e \<longrightarrow>
      get_gemini_response env api_key parts = Inr (
        lit ''ERROR: Could not generate response from Gemini. Details: '' @ e)) \<and>
   (\<forall>t. try_generate env api_key parts = Inr t \<longrightarrow>
      get_gemini_response env api_key parts = Inr t) \<and>
   (\<forall>e. try_generate env api_key parts = Inl e \<longrightarrow>
      (\<exists>s. get_gemini_response env api_key parts = Inr s \<and> prefix (lit ''ERROR: Could not generate response from Gemini. Details: '') s)) \<and>
   (\<forall>t. try_generate env api_key parts = Inr t \<and> \<not> prefix (lit ''ERROR: Could not generate response from Gemini. Details: '') t \<longrightarrow>
      (\<exists>s. get_gemini_response env api_key parts = Inr s \<and> \<not> prefix (lit ''ERROR: Could not generate response from Gemini. Details: '') s)) \<and>
   (\<forall>st. process_files env opts selected
            \<lparr>prompt_parts = [], ui = [Status (lit ''Processing files...'')]\<rparr> = Inr st \<and>
         prompt_parts st \<noteq> [] \<and> secrets_GOOGLE_API_KEY env = Some api_key \<longrightarrow>
      (\<exists>st' r. get_gemini_response env api_key (PyStr user_prompt # prompt_parts st) = Inr r \<and>
         analyze_files env opts selected user_prompt = Inr st' \<and>
         ui st' = ui st @
           [StatusComplete (lit ''All files processed!''),
            Info (lit ''Sending '' @ str_nat (length selected) @
                  lit '' file(s) to Gemini for analysis...''),
            Spinner ([0xF0, 0x178, 0xA4, 0x2013] @ lit '' Gemini is thinking...''),
            GeminiCall api_key (PyStr user_prompt # prompt_parts st),
            Subheader (lit ''Gemini'' @ [39] @ lit ''s Response:''),
            Write r]))"
proof (intro conjI allI impI)
  show "\<exists>s. get_gemini_response env api_key parts = Inr s"
    by (simp add: get_gemini_response_cases)
next
  fix e assume "genai_configure env api_key = Inl e"
  then show "get_gemini_response env api_key parts = Inr (
        lit ''ERROR: Could not generate response from Gemini. Details: '' @ e)"
    by (simp add: get_gemini_response_def try_generate_def)
next
  fix e assume "genai_configure env api_key = Inr () \<and>
      generate_content env api_key (lit ''gemini-1.5-pro-latest'') parts = Inl e"
  then show "get_gemini_response env api_key parts = Inr (
        lit ''ERROR: Could not generate response from Gemini. Details: '' @ e)"
    by (simp add: get_gemini_response_def try_generate_def)
next
  fix e assume "genai_configure env api_key = Inr () \<and>
      generate_content env api_key (lit ''gemini-1.5-pro-latest'') parts = Inr (Inl e)"
  then show "get_gemini_response env api_key parts = Inr (
        lit ''ERROR: Could not generate response from Gemini. Details: '' @ e)"
    by (simp add: get_gemini_response_def try_generate_def)
next
  fix t assume "genai_configure env api_key = Inr () \<and>
      generate_content env api_key (lit ''gemini-1.5-pro-latest'') parts = Inr (Inr t)"
  then show "get_gemini_response env api_key parts = Inr t"
    by (simp add: get_gemini_response_def try_generate_def)
next
  fix e assume "try_generate env api_key parts = Inl e"
  then show "get_gemini_response env api_key parts = Inr (
        lit ''ERROR: Could not generate response from Gemini. Details: '' @ e)"
    by (simp add: get_gemini_response_cases)
next
  fix t assume "try_generate env api_key parts = Inr t"
  then show "get_gemini_response env api_key parts = Inr t"
    by (simp add: get_gemini_response_cases)
next
  fix e assume "try_generate env api_key parts = Inl e"
  then show "\<exists>s. get_gemini_response env api_key parts = Inr s \<and> prefix (lit ''ERROR: Could not generate response from Gemini. Details: '') s"
    by (simp add: get_gemini_response_cases)
next
  fix t assume "try_generate env api_key parts = Inr t \<and> \<not> prefix (lit ''ERROR: Could not generate response from Gemini. Details: '') t"
  then show "\<exists>s. get_gemini_response env api_key parts = Inr s \<and> \<not> prefix (lit ''ERROR: Could not generate response from Gemini. Details: '') s"
    by (simp add: get_gemini_response_cases)
next
  fix st
  assume a: "process_files env opts selected
            \<lparr>prompt_parts = [], ui = [Status (lit ''Processing files...'')]\<rparr> = Inr st \<and>
         prompt_parts st \<noteq> [] \<and> secrets_GOOGLE_API_KEY env = Some api_key"
  obtain r where r: "get_gemini_response env api_key (PyStr user_prompt # prompt_parts st) = Inr r"
    by (simp add: get_gemini_response_cases)
  from a r analyze_files_sends [of env opts selected st api_key user_prompt r]
  show "\<exists>st' r. get_gemini_response env api_key (PyStr user_prompt # prompt_parts st) = Inr r \<and>
         analyze_files env opts selected user_prompt = Inr st' \<and>
         ui st' = ui st @
           [StatusComplete (lit ''All files processed!''),
            Info (lit ''Sending '' @ str_nat (length selected) @
                  lit '' file(s) to Gemini for analysis...''),
            Spinner ([0xF0, 0x178, 0xA4, 0x2013] @ lit '' Gemini is thinking...''),
            GeminiCall api_key (PyStr user_prompt # prompt_parts st),
            Subheader (lit ''Gemini'' @ [39] @ lit ''s Response:''),
            Write r]"
    by blast
qed

theorem get_gemini_response_never_raises_witness:
  "genai_configure quota_env (lit ''key'') = Inr () \<and>
   generate_content quota_env (lit ''key'') (lit ''gemini-1.5-pro-latest'')
     [PyStr (lit ''Summarize''), PyStr (document_part (lit ''a.txt'') (lit ''A''))] =
     Inl (lit ''429 quota'') \<and>
   get_gemini_response quota_env (lit ''key'')
     [PyStr (lit ''Summarize''), PyStr (document_part (lit ''a.txt'') (lit ''A''))] =
     Inr (lit ''ERROR: Could not generate response from Gemini. Details: 429 quota'') \<and>
   (\<exists>st'. analyze_files quota_env drive_options [lit ''a.txt''] (lit ''Summarize'') = Inr st' \<and>
      last (ui st') =
        Write (lit ''ERROR: Could not generate response from Gemini. Details: 429 quota''))"
proof -
  let ?parts = "[PyStr (lit ''Summarize''), PyStr (document_part (lit ''a.txt'') (lit ''A''))]
      :: (nat \<times> nat) pyval list"
  let ?st = "\<lparr>prompt_parts = [PyStr (document_part (lit ''a.txt'') (lit ''A''))],
      ui = [Status (lit ''Processing files...''),
            StatusUpdate (lit ''Processing: '' @ lit ''a.txt'' @ lit ''...'')]\<rparr>
      :: (nat \<times> nat) run"
  note inst = get_gemini_response_never_raises
      [where env = quota_env and api_key = "lit ''key''" and parts = ?parts
         and opts = drive_options and selected = "[lit ''a.txt'']"
         and user_prompt = "lit ''Summarize''"]
  have k: "genai_configure quota_env (lit ''key'') = Inr ()"
    by (simp add: quota_env_def drive_env_def)
  have q: "generate_content quota_env (lit ''key'') (lit ''gemini-1.5-pro-latest'') ?parts =
      Inl (lit ''429 quota'')"
    by (simp add: quota_env_def)
  have "get_gemini_response quota_env (lit ''key'') ?parts =
      Inr (
        lit ''ERROR: Could not generate response from Gemini. Details: '' @ lit ''429 quota'')"
    using inst [THEN conjunct2, THEN conjunct2, THEN conjunct1] k q by blast
  then have g: "get_gemini_response quota_env (lit ''key'') ?parts =
      Inr (lit ''ERROR: Could not generate response from Gemini. Details: 429 quota'')"
    by (simp add: lit_append)
  have p: "process_files quota_env drive_options [lit ''a.txt'']
      \<lparr>prompt_parts = [], ui = [Status (lit ''Processing files...'')]\<rparr> = Inr ?st"
    by (simp add: process_file_text [OF drive_lookup(1) quota_facts(1) drive_names(1)])
  have "\<exists>st' r. get_gemini_response quota_env (lit ''key'')
          (PyStr (lit ''Summarize'') # prompt_parts ?st) = Inr r \<and>
      analyze_files quota_env drive_options [lit ''a.txt''] (lit ''Summarize'') = Inr st' \<and>
      ui st' = ui ?st @
           [StatusComplete (lit ''All files processed!''),
            Info (lit ''Sending '' @ str_nat (length [lit ''a.txt'']) @
                  lit '' file(s) to Gemini for analysis...''),
            Spinner ([0xF0, 0x178, 0xA4, 0x2013] @ lit '' Gemini is thinking...''),
            GeminiCall (lit ''key'') (PyStr (lit ''Summarize'') # prompt_parts ?st),
            Subheader (lit ''Gemini'' @ [39] @ lit ''s Response:''),
            Write r]"
    using inst [THEN conjunct2, THEN conjunct2, THEN conjunct2, THEN conjunct2, THEN conjunct2, THEN conjunct2, THEN conjunct2, THEN conjunct2, THEN conjunct2]
      p quota_facts(2) by simp
  then obtain st' r where r:
    "get_gemini_response quota_env (lit ''key'') ?parts = Inr r"
    "analyze_files quota_env drive_options [lit ''a.txt''] (lit ''Summarize'') = Inr st'"
    "last (ui st') = Write r"
    by auto
  from r(1) g have "r = lit ''ERROR: Could not generate response from Gemini. Details: 429 quota''"
    by simp
  with r(2,3) k q g show ?thesis by blast
qed

text \<open>
  The prefix does not tell a failure from every successful reply: a call that fails
  with \<^verbatim>\<open>429 quota\<close> and a call that succeeds with a reply that reads
  \<^verbatim>\<open>ERROR: Could not generate response from Gemini. Details: 429 quota\<close> return the same
  string.
\<close>

theorem error_prefix_counterexample:
  "try_generate quota_env (lit ''key'')
     [PyStr (lit ''Summarize''), PyStr (document_part (lit ''a.txt'') (lit ''A''))] =
     Inl (lit ''429 quota'') \<and>
   try_generate echo_env (lit ''key'')
     [PyStr (lit ''Summarize''), PyStr (document_part (lit ''a.txt'') (lit ''A''))] =
     Inr (lit ''ERROR: Could not generate response from Gemini. Details: 429 quota'') \<and>
   get_gemini_response quota_env (lit ''key'')
     [PyStr (lit ''Summarize''), PyStr (document_part (lit ''a.txt'') (lit ''A''))] =
     Inr (lit ''ERROR: Could not generate response from Gemini. Details: 429 quota'') \<and>
   get_gemini_response echo_env (lit ''key'')
     [PyStr (lit ''Summarize''), PyStr (document_part (lit ''a.txt'') (lit ''A''))] =
     Inr (lit ''ERROR: Could not generate response from Gemini. Details: 429 quota'') \<and>
   prefix (lit ''ERROR: Could not generate response from Gemini. Details: '')
     (lit ''ERROR: Could not generate response from Gemini. Details: 429 quota'')"
  by (simp add: get_gemini_response_cases quota_facts echo_facts lit_append)
     (simp add: lit_def)

end
